theory Spec2Isabelle
  imports Complex_Main "HOL-Library.Log_Nat" "HOL-Library.Char_ord" "HOL-Library.List_Lexorder"
begin

section \<open>Python values\<close>

subsection \<open>Floats\<close>

text \<open>
  A Python \<open>float\<close> is an IEEE-754 binary64 number. A finite one is modelled by the
  rational it denotes, \<open>Fin 0\<close> being the positive zero; the negative zero, the two
  infinities and NaN are separate values.
\<close>

datatype pyfloat = Fin rat | NegZero | PInf | NInf | NaN

definition pow2 :: "int \<Rightarrow> rat" where
  "pow2 k = (if 0 \<le> k then 2 ^ nat k else 1 / 2 ^ nat (- k))"

text \<open>\<open>ilog2 x\<close> is the binary exponent of \<open>x \<noteq> 0\<close>: the \<open>e\<close> with \<open>2^e \<le> |x| < 2^(e+1)\<close>.\<close>

definition ilog2 :: "rat \<Rightarrow> int" where
  "ilog2 x =
     (let (a, b) = quotient_of \<bar>x\<bar>; k = bitlen a - bitlen b
      in if pow2 k \<le> \<bar>x\<bar> then k else k - 1)"

definition round_half_even :: "rat \<Rightarrow> int" where
  "round_half_even x =
     (let f = \<lfloor>x\<rfloor>; d = x - of_int f
      in if d < 1 / 2 then f else if 1 / 2 < d then f + 1 else if even f then f else f + 1)"

text \<open>
  Rounding an exact rational to binary64, to nearest with ties to even: 53 significant
  bits, the exponent bounded below by the subnormal range, a result of magnitude
  \<open>2^1024\<close> or more becoming an infinity, and a negative number that rounds to zero
  becoming the negative zero.
\<close>

definition round_binary64 :: "rat \<Rightarrow> pyfloat" where
  "round_binary64 x =
     (if x = 0 then Fin 0
      else let e = max (ilog2 x) (- 1022);
               u = pow2 (e - 52);
               y = of_int (round_half_even (x / u)) * u
           in if pow2 1024 \<le> \<bar>y\<bar> then (if 0 < x then PInf else NInf)
              else if y = 0 \<and> x < 0 then NegZero
              else Fin y)"

text \<open>A float literal of the source denotes the binary64 number nearest to its decimal.\<close>

definition float_lit :: "rat \<Rightarrow> pyfloat" where
  "float_lit q = round_binary64 q"

definition is_float :: "pyfloat \<Rightarrow> bool" where
  "is_float f = (case f of Fin q \<Rightarrow> round_binary64 q = Fin q | _ \<Rightarrow> True)"

text \<open>
  \<open>a >= b\<close> on floats: false as soon as one side is NaN; the two zeros compare equal.
\<close>

fun float_ge :: "pyfloat \<Rightarrow> pyfloat \<Rightarrow> bool" where
  "float_ge NaN _ = False"
| "float_ge _ NaN = False"
| "float_ge PInf _ = True"
| "float_ge _ NInf = True"
| "float_ge NInf _ = False"
| "float_ge _ PInf = False"
| "float_ge (Fin a) (Fin b) = (b \<le> a)"
| "float_ge (Fin a) NegZero = (0 \<le> a)"
| "float_ge NegZero (Fin b) = (b \<le> 0)"
| "float_ge NegZero NegZero = True"

subsection \<open>Values, dictionaries and their JSON text\<close>

text \<open>
  The values the program builds and stores. A \<open>dict\<close> is an association list in
  insertion order, as Python keeps it; a \<open>str\<close> is the list of its code points, here
  the code points below 256.
\<close>

datatype pyval =
    VNone
  | VBool bool
  | VInt int
  | VFloat pyfloat
  | VStr string
  | VList "pyval list"
  | VDict "(string \<times> pyval) list"

type_synonym pydict = "(string \<times> pyval) list"

fun nat_repr :: "nat \<Rightarrow> string" where
  "nat_repr n =
     (if n < 10 then [char_of (48 + n)] else nat_repr (n div 10) @ [char_of (48 + n mod 10)])"

definition int_repr :: "int \<Rightarrow> string" where
  "int_repr i = (if i < 0 then CHR ''-'' # nat_repr (nat (- i)) else nat_repr (nat i))"

definition hex_digit :: "nat \<Rightarrow> char" where
  "hex_digit d = (if d < 10 then char_of (48 + d) else char_of (87 + d))"

text \<open>
  \<open>json.encoder.py_encode_basestring_ascii\<close>: the quote and the backslash are escaped,
  the five named control characters have their short escapes, and every other character
  outside \<open>' '..'~'\<close> becomes \<open>\uXXXX\<close>.
\<close>

definition escape_char :: "char \<Rightarrow> string" where
  "escape_char c =
     (let n = (of_char c :: nat) in
      if n = 0x22 then [CHR 0x5C, CHR 0x22]
      else if n = 0x5C then [CHR 0x5C, CHR 0x5C]
      else if n = 0x08 then [CHR 0x5C, CHR ''b'']
      else if n = 0x0C then [CHR 0x5C, CHR ''f'']
      else if n = 0x0A then [CHR 0x5C, CHR ''n'']
      else if n = 0x0D then [CHR 0x5C, CHR ''r'']
      else if n = 0x09 then [CHR 0x5C, CHR ''t'']
      else if 0x20 \<le> n \<and> n \<le> 0x7E then [c]
      else [CHR 0x5C, CHR ''u'', CHR ''0'', CHR ''0'', hex_digit (n div 16), hex_digit (n mod 16)])"

definition encode_basestring_ascii :: "string \<Rightarrow> string" where
  "encode_basestring_ascii s = CHR 0x22 # concat (map escape_char s) @ [CHR 0x22]"

fun join :: "string \<Rightarrow> string list \<Rightarrow> string" where
  "join sep [] = []"
| "join sep [x] = x"
| "join sep (x # y # ys) = x @ sep @ join sep (y # ys)"

text \<open>
  The library functions the program calls and this development does not define:
  \<open>float.__repr__\<close> on a finite float and \<open>hashlib.sha256(...).hexdigest()\<close>.
  Every theorem holds for whatever they compute.
\<close>

record Lib =
  float_repr :: "rat \<Rightarrow> string"
  sha256_hexdigest :: "string \<Rightarrow> string"

definition floatstr :: "Lib \<Rightarrow> pyfloat \<Rightarrow> string" where
  "floatstr lib f =
     (case f of Fin q \<Rightarrow> float_repr lib q | NegZero \<Rightarrow> ''-0.0'' | PInf \<Rightarrow> ''Infinity''
      | NInf \<Rightarrow> ''-Infinity'' | NaN \<Rightarrow> ''NaN'')"

definition render_item :: "string \<times> string \<Rightarrow> string" where
  "render_item kv = encode_basestring_ascii (fst kv) @ '': '' @ snd kv"

text \<open>
  \<open>json.dumps(obj, sort_keys=True)\<close> with the default separators: the items of every
  dictionary, at every depth, are written in the order of their keys.
\<close>

primrec json_dumps :: "Lib \<Rightarrow> pyval \<Rightarrow> string" where
  "json_dumps lib VNone = ''null''"
| "json_dumps lib (VBool b) = (if b then ''true'' else ''false'')"
| "json_dumps lib (VInt i) = int_repr i"
| "json_dumps lib (VFloat f) = floatstr lib f"
| "json_dumps lib (VStr s) = encode_basestring_ascii s"
| "json_dumps lib (VList xs) = ''['' @ join '', '' (map (json_dumps lib) xs) @ '']''"
| "json_dumps lib (VDict kvs) =
     ''{'' @ join '', '' (map render_item (sort_key fst (map (map_prod id (json_dumps lib)) kvs)))
       @ ''}''"

text \<open>
  Two values are field-wise equal when they are the same value up to the order in which
  the items of their dictionaries were inserted, at any depth. The types count: the
  integer \<open>1\<close>, the float \<open>1.0\<close> and \<open>True\<close> are three values, and so are the two
  zeros of the floats, as they are for \<open>json.dumps\<close>.
\<close>

inductive same_value :: "pyval \<Rightarrow> pyval \<Rightarrow> bool" where
  same_refl: "same_value v v"
| same_list: "list_all2 same_value xs ys \<Longrightarrow> same_value (VList xs) (VList ys)"
| same_dict:
    "list_all2 (\<lambda>x z. fst x = fst z \<and> same_value (snd x) (snd z)) xs zs \<Longrightarrow>
     distinct (map fst xs) \<Longrightarrow> distinct (map fst ys) \<Longrightarrow> set zs = set ys \<Longrightarrow>
     same_value (VDict xs) (VDict ys)"

subsection \<open>The float operations of the statistics\<close>

text \<open>
  \<open>int / int\<close> is the exact quotient rounded once to binary64, a zero quotient taking the
  sign of the divisor; it raises on a zero divisor and when the quotient is too large for
  a float.
\<close>

definition int_truediv :: "int \<Rightarrow> int \<Rightarrow> string + pyfloat" where
  "int_truediv a b =
     (if b = 0 then Inl ''division by zero''
      else if a = 0 then Inr (if b < 0 then NegZero else Fin 0)
      else case round_binary64 (of_int a / of_int b) of
             PInf \<Rightarrow> Inl ''integer division result too large for a float''
           | NInf \<Rightarrow> Inl ''integer division result too large for a float''
           | r \<Rightarrow> Inr r)"

definition is_neg :: "pyfloat \<Rightarrow> bool" where
  "is_neg f = (case f of Fin q \<Rightarrow> q < 0 | NegZero \<Rightarrow> True | NInf \<Rightarrow> True | _ \<Rightarrow> False)"

definition is_zero :: "pyfloat \<Rightarrow> bool" where
  "is_zero f = (f = Fin 0 \<or> f = NegZero)"

definition is_inf :: "pyfloat \<Rightarrow> bool" where
  "is_inf f = (f = PInf \<or> f = NInf)"

text \<open>
  \<open>a * b\<close> on floats: NaN propagates and is the product of a zero and an infinity; an
  infinite or zero product has the sign of the signs' product; otherwise the exact
  product is rounded.
\<close>

definition float_mul :: "pyfloat \<Rightarrow> pyfloat \<Rightarrow> pyfloat" where
  "float_mul a b =
     (if a = NaN \<or> b = NaN then NaN
      else if (is_inf a \<and> is_zero b) \<or> (is_zero a \<and> is_inf b) then NaN
      else if is_inf a \<or> is_inf b then (if is_neg a \<noteq> is_neg b then NInf else PInf)
      else if is_zero a \<or> is_zero b then (if is_neg a \<noteq> is_neg b then NegZero else Fin 0)
      else case (a, b) of (Fin x, Fin y) \<Rightarrow> round_binary64 (x * y) | _ \<Rightarrow> NaN)"

text \<open>
  \<open>round(x, 2)\<close> on a float: the exact binary value is rounded to two decimals, ties to
  even, and the decimal obtained is rounded to binary64, a zero keeping the sign of \<open>x\<close>;
  infinities and NaN round to themselves. On an \<open>int\<close>, \<open>round(i, 2)\<close> is \<open>i\<close>; the
  accuracy that \<open>get_statistics\<close> rounds is an \<open>int\<close> or a \<open>float\<close>.
\<close>

definition float_round2 :: "pyfloat \<Rightarrow> pyfloat" where
  "float_round2 f =
     (case f of
        Fin q \<Rightarrow>
          (let r = round_half_even (q * 100)
           in if r = 0 then (if q < 0 then NegZero else Fin 0)
              else round_binary64 (of_int r / 100))
      | _ \<Rightarrow> f)"

fun py_round2 :: "pyval \<Rightarrow> pyval" where
  "py_round2 (VFloat f) = VFloat (float_round2 f)"
| "py_round2 v = v"

section \<open>The persistence store (\<open>database.py\<close>)\<close>

text \<open>
  The two MongoDB collections, each the list of its documents in insertion order (the
  \<open>_id\<close> that \<open>insert_one\<close> adds to a document is left out). Whether an operation of
  the store succeeds is not decided by the program: the environment of a call says which
  operations raise, and with what message.
\<close>

datatype collection = TransactionsColl | AlertsColl

record Database =
  transactions :: "pydict list"
  alerts :: "pydict list"

record Prediction =
  risk_score :: pyfloat
  label :: string
  explanation :: pyval
  model_version :: string
  model_hash :: string

text \<open>
  The environment of one call: whether the ML engine was loaded, what
  \<open>fraud_detector.predict\<close> answers (an exception is \<open>Inl\<close> of its message), the
  successive readings of \<open>datetime.now().isoformat()\<close> during the call, and the
  operations of the store that raise.
\<close>

record Env =
  ML_AVAILABLE :: bool
  predict :: "pydict \<Rightarrow> string + Prediction"
  clock :: "nat \<Rightarrow> string"
  insert_fault :: "collection \<Rightarrow> string option"
  count_fault :: "collection \<Rightarrow> pydict \<Rightarrow> string option"

definition documents :: "Database \<Rightarrow> collection \<Rightarrow> pydict list" where
  "documents db coll = (case coll of TransactionsColl \<Rightarrow> transactions db | AlertsColl \<Rightarrow> alerts db)"

definition insert_one :: "Env \<Rightarrow> Database \<Rightarrow> collection \<Rightarrow> pydict \<Rightarrow> string + Database" where
  "insert_one env db coll doc =
     (case insert_fault env coll of
        Some msg \<Rightarrow> Inl msg
      | None \<Rightarrow>
          Inr (case coll of
                 TransactionsColl \<Rightarrow> db\<lparr>transactions := transactions db @ [doc]\<rparr>
               | AlertsColl \<Rightarrow> db\<lparr>alerts := alerts db @ [doc]\<rparr>))"

text \<open>A filter of the form \<open>{key: value, ...}\<close> selects the documents that have each value.\<close>

definition matches :: "pydict \<Rightarrow> pydict \<Rightarrow> bool" where
  "matches flt doc = list_all (\<lambda>kv. map_of doc (fst kv) = Some (snd kv)) flt"

definition count_documents :: "Env \<Rightarrow> Database \<Rightarrow> collection \<Rightarrow> pydict \<Rightarrow> string + int" where
  "count_documents env db coll flt =
     (case count_fault env coll flt of
        Some msg \<Rightarrow> Inl msg
      | None \<Rightarrow> Inr (int (length (filter (matches flt) (documents db coll)))))"

text \<open>\<open>save_transaction\<close> and \<open>save_alert\<close> re-raise what \<open>insert_one\<close> raises.\<close>

definition save_transaction :: "Env \<Rightarrow> Database \<Rightarrow> pydict \<Rightarrow> string + Database" where
  "save_transaction env db tx_data = insert_one env db TransactionsColl tx_data"

definition save_alert :: "Env \<Rightarrow> Database \<Rightarrow> pydict \<Rightarrow> string + Database" where
  "save_alert env db alert_data = insert_one env db AlertsColl alert_data"

definition accuracy_of :: "int \<Rightarrow> int \<Rightarrow> string + pyval" where
  "accuracy_of total_txs fraud_detected =
     (if 0 < total_txs then
        (case int_truediv (total_txs - fraud_detected) total_txs of
           Inl e \<Rightarrow> Inl e
         | Inr q \<Rightarrow> Inr (VFloat (float_mul q (Fin 100))))
      else Inr (VInt 0))"

definition zero_statistics :: pydict where
  "zero_statistics =
     [(''totalTx'', VInt 0), (''fraudDetected'', VInt 0), (''accuracy'', VInt 0),
      (''activeAlerts'', VInt 0)]"

text \<open>The body of the \<open>try\<close> block of \<open>get_statistics\<close>.\<close>

definition compute_statistics :: "Env \<Rightarrow> Database \<Rightarrow> string + pydict" where
  "compute_statistics env db =
     (case count_documents env db TransactionsColl [] of
        Inl e \<Rightarrow> Inl e
      | Inr total_txs \<Rightarrow>
     (case count_documents env db TransactionsColl [(''label'', VStr ''suspicious'')] of
        Inl e \<Rightarrow> Inl e
      | Inr fraud_detected \<Rightarrow>
     (case count_documents env db AlertsColl [(''status'', VStr ''active'')] of
        Inl e \<Rightarrow> Inl e
      | Inr active_alerts \<Rightarrow>
     (case accuracy_of total_txs fraud_detected of
        Inl e \<Rightarrow> Inl e
      | Inr accuracy \<Rightarrow>
          Inr [(''totalTx'', VInt total_txs), (''fraudDetected'', VInt fraud_detected),
               (''accuracy'', py_round2 accuracy), (''activeAlerts'', VInt active_alerts)]))))"

definition get_statistics :: "Env \<Rightarrow> Database \<Rightarrow> pydict" where
  "get_statistics env db =
     (case compute_statistics env db of Inl e \<Rightarrow> zero_statistics | Inr stats \<Rightarrow> stats)"

subsection \<open>What the statistics are measured against\<close>

text \<open>
  The counts of a store state, the condition that the store answers the three counts
  \<open>get_statistics\<close> reads, and the accuracy formula in exact arithmetic.
\<close>

definition total_count :: "Database \<Rightarrow> int" where
  "total_count db = int (length (transactions db))"

definition fraud_count :: "Database \<Rightarrow> int" where
  "fraud_count db =
     int (length (filter (\<lambda>d. map_of d ''label'' = Some (VStr ''suspicious'')) (transactions db)))"

definition active_count :: "Database \<Rightarrow> int" where
  "active_count db =
     int (length (filter (\<lambda>d. map_of d ''status'' = Some (VStr ''active'')) (alerts db)))"

definition counts_answered :: "Env \<Rightarrow> bool" where
  "counts_answered env =
     (count_fault env TransactionsColl [] = None
      \<and> count_fault env TransactionsColl [(''label'', VStr ''suspicious'')] = None
      \<and> count_fault env AlertsColl [(''status'', VStr ''active'')] = None)"

definition exact_accuracy :: "int \<Rightarrow> int \<Rightarrow> rat" where
  "exact_accuracy total_txs fraud_detected =
     of_int (total_txs - fraud_detected) / of_int total_txs * 100"

text \<open>
  The accuracy in the words of the specification: the ratio times 100, in exact
  arithmetic, rounded to two decimals (a tie going to the even neighbour), as a float;
  \<open>0\<close> when there is no transaction.
\<close>

definition spec_accuracy :: "int \<Rightarrow> int \<Rightarrow> pyval" where
  "spec_accuracy total_txs fraud_detected =
     (if total_txs = 0 then VInt 0
      else VFloat (float_lit
             (of_int (round_half_even (exact_accuracy total_txs fraud_detected * 100)) / 100)))"

section \<open>The intake pipeline (\<open>main.py\<close>)\<close>

subsection \<open>The request\<close>

text \<open>
  The pydantic model \<open>Transaction\<close>: four required fields and three optional ones. An
  optional field of the request body is absent, \<open>null\<close> or given; the class default
  stands in for an absent field only.
\<close>

record Transaction =
  txHash :: string
  from_address :: string
  to_address :: string
  amount :: pyfloat
  timestamp :: "string option"
  gas_price :: "pyfloat option"
  gas_used :: "int option"

datatype 'a field = Absent | Null | Given 'a

record TransactionBody =
  body_txHash :: string
  body_from_address :: string
  body_to_address :: string
  body_amount :: pyfloat
  body_timestamp :: "string field"
  body_gas_price :: "pyfloat field"
  body_gas_used :: "int field"

definition with_default :: "'a option \<Rightarrow> 'a field \<Rightarrow> 'a option" where
  "with_default d f = (case f of Absent \<Rightarrow> d | Null \<Rightarrow> None | Given v \<Rightarrow> Some v)"

definition parse_Transaction :: "TransactionBody \<Rightarrow> Transaction" where
  "parse_Transaction b =
     \<lparr>txHash = body_txHash b, from_address = body_from_address b,
      to_address = body_to_address b, amount = body_amount b,
      timestamp = with_default None (body_timestamp b),
      gas_price = with_default (Some (float_lit 50)) (body_gas_price b),
      gas_used = with_default (Some 21000) (body_gas_used b)\<rparr>"

subsection \<open>The components of \<open>process_transaction\<close>\<close>

datatype http_error = HTTPException int string

text \<open>
  The calls a run makes to the oracle, to the store and to the signature derivation, in
  the order it makes them, each with its argument.
\<close>

datatype event =
    CallPredict pydict
  | CallSaveTransaction pydict
  | CallDerive pydict
  | CallSaveAlert pydict

record Run =
  outcome :: "http_error + pydict"
  store :: Database
  calls :: "event list"

definition opt_val :: "('a \<Rightarrow> pyval) \<Rightarrow> 'a option \<Rightarrow> pyval" where
  "opt_val f x = (case x of None \<Rightarrow> VNone | Some v \<Rightarrow> f v)"

text \<open>
  \<open>tx.timestamp or datetime.now().isoformat()\<close>: \<open>None\<close> and the empty string are both
  falsy. The second component counts the readings of the clock made so far.
\<close>

definition timestamp_or_now :: "Env \<Rightarrow> Transaction \<Rightarrow> string \<times> nat" where
  "timestamp_or_now env tx =
     (case timestamp tx of
        None \<Rightarrow> (clock env 0, 1)
      | Some s \<Rightarrow> if s = [] then (clock env 0, 1) else (s, 0))"

definition tx_data_of :: "Transaction \<Rightarrow> string \<Rightarrow> pydict" where
  "tx_data_of tx ts =
     [(''from'', VStr (from_address tx)), (''to'', VStr (to_address tx)),
      (''amount'', VFloat (amount tx)), (''timestamp'', VStr ts),
      (''gas_price'', opt_val VFloat (gas_price tx)), (''gas_used'', opt_val VInt (gas_used tx))]"

definition fallback_prediction :: Prediction where
  "fallback_prediction =
     \<lparr>risk_score = float_lit (1 / 10), label = ''normal'',
      explanation = VDict [(''top_features'', VList []), (''model_scores'', VDict [])],
      model_version = ''N/A'', model_hash = ''N/A''\<rparr>"

definition get_prediction :: "Env \<Rightarrow> pydict \<Rightarrow> string + Prediction" where
  "get_prediction env tx_data =
     (if ML_AVAILABLE env then predict env tx_data else Inr fallback_prediction)"

definition tx_record_of :: "Transaction \<Rightarrow> string \<Rightarrow> Prediction \<Rightarrow> string \<Rightarrow> pydict" where
  "tx_record_of tx ts prediction processed_at =
     [(''txHash'', VStr (txHash tx)), (''from'', VStr (from_address tx)),
      (''to'', VStr (to_address tx)), (''amount'', VFloat (amount tx)),
      (''timestamp'', VStr ts), (''riskScore'', VFloat (risk_score prediction)),
      (''label'', VStr (label prediction)), (''modelVersion'', VStr (model_version prediction)),
      (''processed_at'', VStr processed_at)]"

definition fraud_signature_of :: "Transaction \<Rightarrow> string \<Rightarrow> Prediction \<Rightarrow> pydict" where
  "fraud_signature_of tx ts prediction =
     [(''txHash'', VStr (txHash tx)), (''flaggedAddress'', VStr (from_address tx)),
      (''riskScore'', VFloat (risk_score prediction)), (''timestamp'', VStr ts),
      (''modelVersion'', VStr (model_version prediction)),
      (''explanation'', explanation prediction)]"

text \<open>
  The signature derivation:
  \<open>hashlib.sha256(json.dumps(fraud_signature, sort_keys=True).encode()).hexdigest()\<close>.
  The JSON text is ASCII, so \<open>encode()\<close> yields its characters as bytes.
\<close>

definition derive :: "Lib \<Rightarrow> pydict \<Rightarrow> string" where
  "derive lib fraud_signature = sha256_hexdigest lib (json_dumps lib (VDict fraud_signature))"

text \<open>The severity: \<open>2 if prediction['risk_score'] >= 0.8 else 1\<close>.\<close>

definition classify :: "pyfloat \<Rightarrow> int" where
  "classify r = (if float_ge r (float_lit (4 / 5)) then 2 else 1)"

definition alert_record_of ::
    "Transaction \<Rightarrow> Prediction \<Rightarrow> string \<Rightarrow> int \<Rightarrow> string \<Rightarrow> pydict" where
  "alert_record_of tx prediction signature_hash severity now =
     [(''sigHash'', VStr signature_hash), (''txHash'', VStr (txHash tx)),
      (''flaggedAddress'', VStr (from_address tx)),
      (''riskScore'', VFloat (risk_score prediction)), (''severity'', VInt severity),
      (''explanation'', explanation prediction), (''timestamp'', VStr now),
      (''status'', VStr ''active'')]"

definition response_of :: "Transaction \<Rightarrow> Prediction \<Rightarrow> bool \<Rightarrow> string option \<Rightarrow> pydict" where
  "response_of tx prediction alert_registered signature_hash =
     [(''success'', VBool True), (''txHash'', VStr (txHash tx)),
      (''riskScore'', VFloat (risk_score prediction)), (''label'', VStr (label prediction)),
      (''explanation'', explanation prediction), (''alertRegistered'', VBool alert_registered),
      (''signatureHash'', opt_val VStr signature_hash)]"

definition failed :: "string \<Rightarrow> Database \<Rightarrow> event list \<Rightarrow> Run" where
  "failed e db cs = \<lparr>outcome = Inl (HTTPException 500 e), store = db, calls = cs\<rparr>"

subsection \<open>\<open>process_transaction\<close>\<close>

text \<open>The branch taken when the label is \<open>suspicious\<close>, after the transaction write.\<close>

definition raise_alert ::
    "Lib \<Rightarrow> Env \<Rightarrow> Database \<Rightarrow> Transaction \<Rightarrow> string \<Rightarrow> nat \<Rightarrow> Prediction \<Rightarrow> event list \<Rightarrow> Run" where
  "raise_alert lib env db tx ts n prediction cs =
     (let fraud_signature = fraud_signature_of tx ts prediction;
          signature_hash = derive lib fraud_signature;
          severity = classify (risk_score prediction);
          alert_record =
            alert_record_of tx prediction signature_hash severity (clock env (Suc n));
          cs' = cs @ [CallDerive fraud_signature, CallSaveAlert alert_record]
      in case save_alert env db alert_record of
           Inl e \<Rightarrow> failed e db cs'
         | Inr db' \<Rightarrow>
             \<lparr>outcome = Inr (response_of tx prediction True (Some signature_hash)),
              store = db', calls = cs'\<rparr>)"

definition process_transaction :: "Lib \<Rightarrow> Env \<Rightarrow> Database \<Rightarrow> Transaction \<Rightarrow> Run" where
  "process_transaction lib env db tx =
     (let (ts, n) = timestamp_or_now env tx;
          tx_data = tx_data_of tx ts;
          cs0 = (if ML_AVAILABLE env then [CallPredict tx_data] else [])
      in case get_prediction env tx_data of
           Inl e \<Rightarrow> failed e db cs0
         | Inr prediction \<Rightarrow>
             (let tx_record = tx_record_of tx ts prediction (clock env n);
                  cs1 = cs0 @ [CallSaveTransaction tx_record]
              in case save_transaction env db tx_record of
                   Inl e \<Rightarrow> failed e db cs1
                 | Inr db1 \<Rightarrow>
                     if label prediction = ''suspicious''
                     then raise_alert lib env db1 tx ts n prediction cs1
                     else \<lparr>outcome = Inr (response_of tx prediction False None),
                           store = db1, calls = cs1\<rparr>))"

text \<open>
  The assessment a call works with: the oracle's answer to the normalized transaction, or
  the fallback when the ML engine is not available.
\<close>

definition assessment :: "Env \<Rightarrow> Transaction \<Rightarrow> string + Prediction" where
  "assessment env tx = get_prediction env (tx_data_of tx (fst (timestamp_or_now env tx)))"

text \<open>The documents a run builds from the request, the assessment and the clock.\<close>

definition built_tx_record :: "Env \<Rightarrow> Transaction \<Rightarrow> Prediction \<Rightarrow> pydict" where
  "built_tx_record env tx p =
     tx_record_of tx (fst (timestamp_or_now env tx)) p (clock env (snd (timestamp_or_now env tx)))"

definition built_signature :: "Env \<Rightarrow> Transaction \<Rightarrow> Prediction \<Rightarrow> pydict" where
  "built_signature env tx p = fraud_signature_of tx (fst (timestamp_or_now env tx)) p"

definition built_alert_record :: "Lib \<Rightarrow> Env \<Rightarrow> Transaction \<Rightarrow> Prediction \<Rightarrow> pydict" where
  "built_alert_record lib env tx p =
     alert_record_of tx p (derive lib (built_signature env tx p)) (classify (risk_score p))
       (clock env (Suc (snd (timestamp_or_now env tx))))"

definition predict_calls :: "Env \<Rightarrow> Transaction \<Rightarrow> event list" where
  "predict_calls env tx =
     (if ML_AVAILABLE env then [CallPredict (tx_data_of tx (fst (timestamp_or_now env tx)))] else [])"

section \<open>Worked inputs\<close>

text \<open>
  Concrete collaborators and requests, used where a theorem is evaluated on an input.
  \<open>example_lib\<close> gives the two library functions simple stand-ins.
\<close>

definition example_lib :: Lib where
  "example_lib = \<lparr>float_repr = (\<lambda>q. ''0.95''), sha256_hexdigest = (\<lambda>s. ''sha256 of '' @ s)\<rparr>"

definition suspicious_prediction :: Prediction where
  "suspicious_prediction =
     \<lparr>risk_score = float_lit (95 / 100), label = ''suspicious'', explanation = VDict [],
      model_version = ''v1'', model_hash = ''m1''\<rparr>"

definition normal_prediction :: Prediction where
  "normal_prediction =
     \<lparr>risk_score = float_lit (1 / 10), label = ''normal'', explanation = VDict [],
      model_version = ''v1'', model_hash = ''m1''\<rparr>"

definition example_env :: Env where
  "example_env =
     \<lparr>ML_AVAILABLE = True, predict = (\<lambda>d. Inr suspicious_prediction),
      clock = (\<lambda>n. if n = 0 then ''2024-01-01T00:00:00''
                   else if n = 1 then ''2024-01-01T00:00:01'' else ''2024-01-01T00:00:02''),
      insert_fault = (\<lambda>c. None), count_fault = (\<lambda>c f. None)\<rparr>"

definition normal_env :: Env where
  "normal_env = example_env\<lparr>predict := (\<lambda>d. Inr normal_prediction)\<rparr>"

definition only_fails :: "collection \<Rightarrow> string \<Rightarrow> collection \<Rightarrow> string option" where
  "only_fails coll msg c = (if c = coll then Some msg else None)"

definition example_tx :: Transaction where
  "example_tx =
     \<lparr>txHash = ''0xabc'', from_address = ''0x1'', to_address = ''0x2'', amount = Fin 10,
      timestamp = Some [], gas_price = Some (Fin 50), gas_used = Some 21000\<rparr>"

definition example_body :: TransactionBody where
  "example_body =
     \<lparr>body_txHash = ''0xabc'', body_from_address = ''0x1'', body_to_address = ''0x2'',
      body_amount = Fin 10, body_timestamp = Absent, body_gas_price = Absent,
      body_gas_used = Given 30000\<rparr>"

definition labelled :: "string \<Rightarrow> pydict" where
  "labelled l = [(''label'', VStr l)]"

definition store_with :: "nat \<Rightarrow> nat \<Rightarrow> Database" where
  "store_with n k =
     \<lparr>transactions = replicate k (labelled ''suspicious'') @ replicate (n - k) (labelled ''normal''),
      alerts = []\<rparr>"

text \<open>Two assessments whose explanations differ in the order of their items only.\<close>

definition explained_prediction :: Prediction where
  "explained_prediction =
     \<lparr>risk_score = float_lit (95 / 100), label = ''suspicious'',
      explanation =
        VDict [(''top_features'', VList [VStr ''amount'', VStr ''gas_price'']),
               (''model_scores'', VDict [(''rf'', VFloat (Fin 1)), (''xgb'', VFloat (Fin (3 / 4)))])],
      model_version = ''v1'', model_hash = ''m1''\<rparr>"

definition reordered_prediction :: Prediction where
  "reordered_prediction =
     \<lparr>risk_score = float_lit (95 / 100), label = ''suspicious'',
      explanation =
        VDict [(''model_scores'', VDict [(''xgb'', VFloat (Fin (3 / 4))), (''rf'', VFloat (Fin 1))]),
               (''top_features'', VList [VStr ''amount'', VStr ''gas_price''])],
      model_version = ''v1'', model_hash = ''m2''\<rparr>"

definition empty_db :: Database where
  "empty_db = \<lparr>transactions = [], alerts = []\<rparr>"

section \<open>Properties of the binary64 rounding\<close>

lemma pow2_powi: "pow2 k = 2 powi k"
  by (simp add: pow2_def power_int_def field_simps)

lemma pow2_pos [simp]: "0 < pow2 k"
  by (simp add: pow2_powi zero_less_power_int)

lemma pow2_add: "pow2 (a + b) = pow2 a * pow2 b"
  by (simp add: pow2_powi power_int_add)

lemma pow2_diff: "pow2 (a - b) = pow2 a / pow2 b"
  by (simp add: pow2_powi power_int_diff)

lemma pow2_nat: "pow2 (int n) = 2 ^ n"
  by (simp add: pow2_def)

lemma pow2_less_iff [simp]: "pow2 a < pow2 b \<longleftrightarrow> a < b"
proof
  assume "pow2 a < pow2 b"
  show "a < b"
  proof (rule ccontr)
    assume "\<not> a < b"
    then have "b \<le> a" by simp
    then have "pow2 b \<le> pow2 a"
      by (simp add: pow2_powi power_int_increasing)
    with \<open>pow2 a < pow2 b\<close> show False by simp
  qed
next
  assume "a < b"
  then show "pow2 a < pow2 b"
    by (simp add: pow2_powi power_int_strict_increasing)
qed

lemma pow2_le_iff [simp]: "pow2 a \<le> pow2 b \<longleftrightarrow> a \<le> b"
  using pow2_less_iff [of b a] by (simp only: linorder_not_less [symmetric])

lemma bitlen_pow2_bounds:
  assumes "0 < a"
  shows "pow2 (bitlen a - 1) \<le> of_int a" and "of_int a < pow2 (bitlen a)"
proof -
  from bitlen_bounds [OF assms] have l: "2 ^ nat (bitlen a - 1) \<le> a" and u: "a < 2 ^ nat (bitlen a)"
    by simp_all
  have pos: "1 \<le> bitlen a"
    using assms bitlen_eq_zero_iff [of a] bitlen_nonneg [of a] by linarith
  have "(of_int (2 ^ nat (bitlen a - 1)) :: rat) \<le> of_int a"
    using l by (simp only: of_int_le_iff)
  then show "pow2 (bitlen a - 1) \<le> of_int a"
    using pos by (simp add: pow2_def)
  have "(of_int a :: rat) < of_int (2 ^ nat (bitlen a))"
    using u by (simp only: of_int_less_iff)
  then show "of_int a < pow2 (bitlen a)"
    using pos by (simp add: pow2_def)
qed

lemma ilog2_bounds:
  assumes "x \<noteq> 0"
  shows "pow2 (ilog2 x) \<le> \<bar>x\<bar>" and "\<bar>x\<bar> < pow2 (ilog2 x + 1)"
proof -
  obtain a b where q: "quotient_of \<bar>x\<bar> = (a, b)"
    by (cases "quotient_of \<bar>x\<bar>") simp
  have b: "0 < b"
    using q by (rule quotient_of_denom_pos)
  have x: "\<bar>x\<bar> = of_int a / of_int b"
    using q by (rule quotient_of_div)
  have a: "0 < a"
  proof -
    have "0 < \<bar>x\<bar>" using assms by simp
    then have "0 < (of_int a :: rat) / of_int b" by (simp only: x)
    then show ?thesis using b by (simp add: zero_less_divide_iff)
  qed
  define k where "k = bitlen a - bitlen b"
  have e: "ilog2 x = (if pow2 k \<le> \<bar>x\<bar> then k else k - 1)"
    by (simp add: ilog2_def q k_def Let_def)
  have bpos: "(0::rat) < of_int b" using b by simp
  have up: "\<bar>x\<bar> < pow2 (k + 1)"
  proof -
    have "of_int a < pow2 (bitlen a)" using a by (rule bitlen_pow2_bounds)
    also have "\<dots> = pow2 (k + 1) * pow2 (bitlen b - 1)"
      by (simp add: k_def pow2_add [symmetric])
    also have "\<dots> \<le> pow2 (k + 1) * of_int b"
      using bitlen_pow2_bounds(1) [OF b] by (simp add: mult_left_mono)
    finally show ?thesis
      using bpos by (simp add: x pos_divide_less_eq)
  qed
  have low: "pow2 (k - 1) \<le> \<bar>x\<bar>"
  proof -
    have "pow2 (k - 1) * of_int b \<le> pow2 (k - 1) * pow2 (bitlen b)"
      using bitlen_pow2_bounds(2) [OF b] by (simp add: mult_left_mono)
    also have "\<dots> = pow2 (bitlen a - 1)"
      by (simp add: k_def pow2_add [symmetric])
    also have "\<dots> \<le> of_int a" using a by (rule bitlen_pow2_bounds)
    finally show ?thesis
      using bpos by (simp add: x pos_le_divide_eq)
  qed
  show "pow2 (ilog2 x) \<le> \<bar>x\<bar>"
    using low by (simp add: e)
  show "\<bar>x\<bar> < pow2 (ilog2 x + 1)"
    using up by (auto simp: e not_le)
qed

lemma ilog2_unique:
  assumes "pow2 e \<le> \<bar>x\<bar>" and "\<bar>x\<bar> < pow2 (e + 1)"
  shows "ilog2 x = e"
proof -
  have "0 < \<bar>x\<bar>"
    using pow2_pos assms(1) by (rule less_le_trans)
  then have nz: "x \<noteq> 0"
    by simp
  have "pow2 e < pow2 (ilog2 x + 1)"
    using assms(1) ilog2_bounds(2) [OF nz] by (rule le_less_trans)
  moreover have "pow2 (ilog2 x) < pow2 (e + 1)"
    using ilog2_bounds(1) [OF nz] assms(2) by (rule le_less_trans)
  ultimately show ?thesis by simp
qed

lemma floor_rat_numeral_div: "\<lfloor>(numeral a :: rat) / numeral b\<rfloor> = numeral a div numeral b"
  by (metis floor_divide_of_int_eq of_int_numeral)

lemma round_half_even_error: "\<bar>of_int (round_half_even x) - x\<bar> \<le> 1 / 2"
proof -
  have "of_int \<lfloor>x\<rfloor> \<le> x" and "x < of_int \<lfloor>x\<rfloor> + 1"
    by linarith+
  then show ?thesis
    by (auto simp: round_half_even_def Let_def)
qed

lemma round_half_even_of_int [simp]: "round_half_even (of_int n) = n"
  by (simp add: round_half_even_def)


lemma pow2_one: "pow2 1 = 2"
  by (simp add: pow2_def)

lemma round_binary64_normal:
  assumes el: "pow2 e \<le> \<bar>x\<bar>" and eu: "\<bar>x\<bar> < pow2 (e + 1)"
    and e_ge: "- 1022 \<le> e" and e_less: "e < 1023"
  shows "round_binary64 x = Fin (of_int (round_half_even (x / pow2 (e - 52))) * pow2 (e - 52))"
    and "\<bar>of_int (round_half_even (x / pow2 (e - 52))) * pow2 (e - 52) - x\<bar> \<le> \<bar>x\<bar> / 2 ^ 53"
proof -
  have "0 < \<bar>x\<bar>"
    using pow2_pos el by (rule less_le_trans)
  then have nz: "x \<noteq> 0"
    by simp
  have il: "ilog2 x = e"
    using el eu by (rule ilog2_unique)
  define u where "u = pow2 (e - 52)"
  define y where "y = of_int (round_half_even (x / u)) * u"
  have upos: "0 < u"
    by (simp add: u_def)
  have u_le: "u \<le> \<bar>x\<bar> / 2 ^ 52"
  proof -
    have "pow2 52 = 2 ^ 52"
      by (simp add: pow2_def)
    then have "u = pow2 e / 2 ^ 52"
      by (simp add: u_def pow2_diff)
    also have "\<dots> \<le> \<bar>x\<bar> / 2 ^ 52"
      using el by (simp add: divide_right_mono)
    finally show ?thesis .
  qed
  have "y - x = (of_int (round_half_even (x / u)) - x / u) * u"
    using upos by (simp add: y_def field_simps)
  then have "\<bar>y - x\<bar> = \<bar>of_int (round_half_even (x / u)) - x / u\<bar> * u"
    using upos by (simp add: abs_mult)
  also have "\<dots> \<le> 1 / 2 * u"
    using round_half_even_error [of "x / u"] upos by (simp add: mult_right_mono)
  also have "\<dots> \<le> 1 / 2 * (\<bar>x\<bar> / 2 ^ 52)"
    using u_le by simp
  also have "\<dots> = \<bar>x\<bar> / 2 ^ 53"
    by simp
  finally have err: "\<bar>y - x\<bar> \<le> \<bar>x\<bar> / 2 ^ 53" .
  have "\<bar>y\<bar> \<le> \<bar>x\<bar> + \<bar>y - x\<bar>"
    by simp
  also have "\<dots> \<le> \<bar>x\<bar> + \<bar>x\<bar> / 2 ^ 53"
    using err by simp
  also have "\<dots> \<le> \<bar>x\<bar> + \<bar>x\<bar>"
    by (simp add: field_simps)
  also have "\<dots> < 2 * pow2 (e + 1)"
    using eu by simp
  also have "\<dots> = pow2 (e + 2)"
    using pow2_add [of "e + 1" 1] by (simp add: pow2_one add.commute)
  also have "\<dots> \<le> pow2 1024"
    using e_less by simp
  finally have fin: "\<not> pow2 1024 \<le> \<bar>y\<bar>"
    by simp
  have "\<bar>x\<bar> / 2 ^ 53 < \<bar>x\<bar>"
    using \<open>0 < \<bar>x\<bar>\<close> by (simp add: field_simps)
  with err have "\<bar>y - x\<bar> < \<bar>x\<bar>"
    by (rule le_less_trans)
  then have ynz: "y \<noteq> 0"
    by auto
  show "round_binary64 x = Fin (of_int (round_half_even (x / pow2 (e - 52))) * pow2 (e - 52))"
    using nz e_ge fin ynz
    by (simp add: round_binary64_def Let_def il max_absorb1 u_def [symmetric] y_def [symmetric])
  show "\<bar>of_int (round_half_even (x / pow2 (e - 52))) * pow2 (e - 52) - x\<bar> \<le> \<bar>x\<bar> / 2 ^ 53"
    using err by (simp add: y_def u_def)
qed

lemma round_binary64_error:
  assumes lo: "pow2 (- 1022) \<le> \<bar>x\<bar>" and hi: "\<bar>x\<bar> < pow2 1023"
  shows "\<exists>y. round_binary64 x = Fin y \<and> \<bar>y - x\<bar> \<le> \<bar>x\<bar> / 2 ^ 53"
proof -
  have "0 < \<bar>x\<bar>"
    using pow2_pos lo by (rule less_le_trans)
  then have nz: "x \<noteq> 0"
    by simp
  have el: "pow2 (ilog2 x) \<le> \<bar>x\<bar>" and eu: "\<bar>x\<bar> < pow2 (ilog2 x + 1)"
    using ilog2_bounds [OF nz] by simp_all
  have "pow2 (- 1022) < pow2 (ilog2 x + 1)"
    using lo eu by (rule le_less_trans)
  then have e_ge: "- 1022 \<le> ilog2 x"
    by simp
  have "pow2 (ilog2 x) < pow2 1023"
    using el hi by (rule le_less_trans)
  then have e_less: "ilog2 x < 1023"
    by simp
  from round_binary64_normal [OF el eu e_ge e_less] show ?thesis
    by blast
qed

text \<open>Evaluating a rounding at a given exponent.\<close>

lemma round_binary64_at:
  assumes "pow2 e \<le> \<bar>x\<bar>" and "\<bar>x\<bar> < pow2 (e + 1)" and "- 1022 \<le> e" and "e < 1023"
    and "of_int (round_half_even (x / pow2 (e - 52))) * pow2 (e - 52) = y"
  shows "round_binary64 x = Fin y"
  using round_binary64_normal(1) [OF assms(1-4)] assms(5) by simp

lemma round_binary64_zero: "round_binary64 0 = Fin 0"
  by (simp add: round_binary64_def)

lemma pow2_neg_one: "pow2 (- 1) = 1 / 2"
  by (simp add: pow2_def)

lemma pow2_zero: "pow2 0 = 1"
  by (simp add: pow2_def)

lemma float_below_one_grid:
  assumes f: "is_float (Fin q)" and lo: "1 / 2 \<le> q" and hi: "q < 1"
  shows "\<exists>m::int. q = of_int m / 2 ^ 53"
proof -
  have q: "\<bar>q\<bar> = q" and nz: "q \<noteq> 0"
    using lo by simp_all
  have "pow2 (- 1) \<le> \<bar>q\<bar>" and "\<bar>q\<bar> < pow2 (- 1 + 1)"
    using lo hi by (simp_all add: q pow2_neg_one pow2_zero)
  then have e: "ilog2 q = - 1"
    by (rule ilog2_unique)
  have u: "pow2 (- 53) = 1 / 2 ^ 53"
    by (simp add: pow2_def)
  define m where "m = round_half_even (q / pow2 (- 53))"
  have "round_binary64 q = Fin q"
    using f by (simp add: is_float_def)
  then have "Fin (of_int m * pow2 (- 53)) = Fin q"
    using nz by (simp add: round_binary64_def e Let_def m_def split: if_splits)
  then have "q = of_int m / 2 ^ 53"
    by (simp add: u)
  then show ?thesis ..
qed

lemma float_lit_four_fifths: "float_lit (4 / 5) = Fin (7205759403792794 / 2 ^ 53)"
  unfolding float_lit_def
  by (rule round_binary64_at [where e = "- 1"])
     (simp_all add: pow2_def round_half_even_def Let_def floor_rat_numeral_div)

lemma float_lit_79: "float_lit (79 / 100) = Fin (7115687411245384 / 2 ^ 53)"
  unfolding float_lit_def
  by (rule round_binary64_at [where e = "- 1"])
     (simp_all add: pow2_def round_half_even_def Let_def floor_rat_numeral_div)

lemma float_lit_95: "float_lit (95 / 100) = Fin (8556839292003942 / 2 ^ 53)"
  unfolding float_lit_def
  by (rule round_binary64_at [where e = "- 1"])
     (simp_all add: pow2_def round_half_even_def Let_def floor_rat_numeral_div)

lemma float_lit_one: "float_lit 1 = Fin 1"
  unfolding float_lit_def
  by (rule round_binary64_at [where e = 0])
     (simp_all add: pow2_def round_half_even_def Let_def floor_rat_numeral_div)

lemma float_lit_zero: "float_lit 0 = Fin 0"
  by (simp add: float_lit_def round_binary64_zero)

lemma float_ge_four_fifths:
  assumes "is_float r"
  shows "float_ge r (float_lit (4 / 5)) \<longleftrightarrow> float_ge r (Fin (4 / 5))"
proof (cases r)
  case (Fin q)
  have "7205759403792794 / 2 ^ 53 \<le> q \<longleftrightarrow> 4 / 5 \<le> q"
  proof
    assume "7205759403792794 / 2 ^ 53 \<le> q"
    then show "4 / 5 \<le> q" by simp
  next
    assume a: "4 / 5 \<le> q"
    show "7205759403792794 / 2 ^ 53 \<le> q"
    proof (cases "q < 1")
      case False
      then show ?thesis by simp
    next
      case True
      from assms Fin a True obtain m :: int where m: "q = of_int m / 2 ^ 53"
        using float_below_one_grid [of q] by auto
      from a have r: "(36028797018963968::rat) \<le> 5 * of_int m"
        by (simp add: m field_simps)
      have "36028797018963968 \<le> 5 * m"
      proof -
        have "(of_int (36028797018963968::int) :: rat) \<le> of_int (5 * m)"
          using r by simp
        then show ?thesis
          by (rule iffD1 [OF of_int_le_iff])
      qed
      then have "7205759403792794 \<le> m"
        by linarith
      then have "(of_int (7205759403792794::int) :: rat) \<le> of_int m"
        by (rule iffD2 [OF of_int_le_iff])
      then have "(7205759403792794 :: rat) \<le> of_int m"
        by simp
      then show ?thesis
        by (simp add: m divide_right_mono)
    qed
  qed
  then show ?thesis
    by (simp add: Fin float_lit_four_fifths)
qed (simp_all add: float_lit_four_fifths)

section \<open>The severity classifier\<close>

text \<open>
  C4. \<open>classify\<close> is a total function on floats. On every float, NaN and the
  infinities included, it returns tier 2 exactly when the score is at least \<open>0.8\<close> and
  tier 1 otherwise: comparing with the binary64 literal \<open>0.8\<close>, as the code does, agrees
  on every float with comparing with the exact \<open>4/5\<close>. In particular
  \<open>classify(0.79) = 1\<close>, \<open>classify(0.8) = 2\<close>, \<open>classify(1.0) = 2\<close> and
  \<open>classify(0.0) = 1\<close>.
\<close>

theorem classify_threshold:
  assumes "is_float r"
  shows "classify r = (if float_ge r (Fin (4 / 5)) then 2 else 1)
       \<and> classify (float_lit (79 / 100)) = 1
       \<and> classify (float_lit (4 / 5)) = 2
       \<and> classify (float_lit 1) = 2
       \<and> classify (float_lit 0) = 1"
proof -
  have "classify r = (if float_ge r (Fin (4 / 5)) then 2 else 1)"
    using float_ge_four_fifths [OF assms] by (simp add: classify_def)
  moreover have "classify (float_lit (79 / 100)) = 1"
    unfolding classify_def float_lit_four_fifths float_lit_79 by simp
  moreover have "classify (float_lit (4 / 5)) = 2"
    unfolding classify_def float_lit_four_fifths by simp
  moreover have "classify (float_lit 1) = 2"
    unfolding classify_def float_lit_four_fifths float_lit_one by simp
  moreover have "classify (float_lit 0) = 1"
    unfolding classify_def float_lit_four_fifths float_lit_zero by simp
  ultimately show ?thesis
    by simp
qed

text \<open>The theorem at the float \<open>0.95\<close> and at NaN.\<close>

theorem classify_threshold_witness:
  "is_float (float_lit (95 / 100)) \<and> classify (float_lit (95 / 100)) = 2
   \<and> is_float NaN \<and> classify NaN = 1"
proof -
  have "round_binary64 (8556839292003942 / 2 ^ 53) = Fin (8556839292003942 / 2 ^ 53)"
    by (rule round_binary64_at [where e = "- 1"])
       (simp_all add: pow2_def round_half_even_def Let_def floor_rat_numeral_div)
  then have h: "is_float (float_lit (95 / 100))"
    by (simp only: float_lit_95 is_float_def pyfloat.case)
  have g: "float_ge (float_lit (95 / 100)) (Fin (4 / 5))"
    unfolding float_lit_95 by simp
  have n: "is_float NaN"
    by (simp add: is_float_def)
  from classify_threshold [OF h] classify_threshold [OF n] show ?thesis
    using h g n by simp
qed


section \<open>The runs of \<open>process_transaction\<close>\<close>

lemma process_cases:
  "process_transaction lib env db tx =
     (let ts = fst (timestamp_or_now env tx); n = snd (timestamp_or_now env tx);
          cs0 = (if ML_AVAILABLE env then [CallPredict (tx_data_of tx ts)] else []);
          cs1 = (\<lambda>p. cs0 @ [CallSaveTransaction (tx_record_of tx ts p (clock env n))]);
          db1 = (\<lambda>p. db\<lparr>transactions := transactions db @ [tx_record_of tx ts p (clock env n)]\<rparr>)
      in case assessment env tx of
           Inl e \<Rightarrow> failed e db cs0
         | Inr p \<Rightarrow>
             (case insert_fault env TransactionsColl of
                Some e \<Rightarrow> failed e db (cs1 p)
              | None \<Rightarrow>
                  if label p = ''suspicious''
                  then raise_alert lib env (db1 p) tx ts n p (cs1 p)
                  else \<lparr>outcome = Inr (response_of tx p False None), store = db1 p,
                        calls = cs1 p\<rparr>))"
  by (simp add: process_transaction_def assessment_def save_transaction_def insert_one_def Let_def
      split: prod.splits sum.splits option.splits)

lemma raise_alert_cases:
  "raise_alert lib env db tx ts n p cs =
     (let h = derive lib (fraud_signature_of tx ts p);
          a = alert_record_of tx p h (classify (risk_score p)) (clock env (Suc n));
          cs' = cs @ [CallDerive (fraud_signature_of tx ts p), CallSaveAlert a]
      in case insert_fault env AlertsColl of
           Some e \<Rightarrow> failed e db cs'
         | None \<Rightarrow>
             \<lparr>outcome = Inr (response_of tx p True (Some h)),
              store = db\<lparr>alerts := alerts db @ [a]\<rparr>, calls = cs'\<rparr>)"
  by (simp add: raise_alert_def save_alert_def insert_one_def Let_def split: option.splits)

lemma example_assessment: "assessment example_env example_tx = Inr suspicious_prediction"
  by (simp add: assessment_def example_env_def get_prediction_def)

lemma example_timestamp:
  "timestamp_or_now example_env example_tx = (''2024-01-01T00:00:00'', 1)"
  by (simp add: timestamp_or_now_def example_env_def example_tx_def)

lemma process_prediction_raises:
  "assessment env tx = Inl e \<Longrightarrow>
   process_transaction lib env db tx = failed e db (predict_calls env tx)"
  by (simp add: process_cases Let_def predict_calls_def)

lemma process_tx_write_fails:
  "assessment env tx = Inr p \<Longrightarrow> insert_fault env TransactionsColl = Some e \<Longrightarrow>
   process_transaction lib env db tx
     = failed e db (predict_calls env tx @ [CallSaveTransaction (built_tx_record env tx p)])"
  by (simp add: process_cases Let_def predict_calls_def built_tx_record_def)

lemma process_no_alert:
  "assessment env tx = Inr p \<Longrightarrow> insert_fault env TransactionsColl = None \<Longrightarrow>
   label p \<noteq> ''suspicious'' \<Longrightarrow>
   process_transaction lib env db tx
     = \<lparr>outcome = Inr (response_of tx p False None),
        store = db\<lparr>transactions := transactions db @ [built_tx_record env tx p]\<rparr>,
        calls = predict_calls env tx @ [CallSaveTransaction (built_tx_record env tx p)]\<rparr>"
  by (simp add: process_cases Let_def predict_calls_def built_tx_record_def)

lemma process_alert_write_fails:
  "assessment env tx = Inr p \<Longrightarrow> insert_fault env TransactionsColl = None \<Longrightarrow>
   label p = ''suspicious'' \<Longrightarrow> insert_fault env AlertsColl = Some e \<Longrightarrow>
   process_transaction lib env db tx
     = failed e (db\<lparr>transactions := transactions db @ [built_tx_record env tx p]\<rparr>)
         (predict_calls env tx @
          [CallSaveTransaction (built_tx_record env tx p), CallDerive (built_signature env tx p),
           CallSaveAlert (built_alert_record lib env tx p)])"
  by (simp add: process_cases raise_alert_cases Let_def predict_calls_def built_tx_record_def
      built_signature_def built_alert_record_def)

lemma process_alert:
  "assessment env tx = Inr p \<Longrightarrow> insert_fault env TransactionsColl = None \<Longrightarrow>
   label p = ''suspicious'' \<Longrightarrow> insert_fault env AlertsColl = None \<Longrightarrow>
   process_transaction lib env db tx
     = \<lparr>outcome = Inr (response_of tx p True (Some (derive lib (built_signature env tx p)))),
        store = db\<lparr>transactions := transactions db @ [built_tx_record env tx p],
                   alerts := alerts db @ [built_alert_record lib env tx p]\<rparr>,
        calls = predict_calls env tx @
          [CallSaveTransaction (built_tx_record env tx p), CallDerive (built_signature env tx p),
           CallSaveAlert (built_alert_record lib env tx p)]\<rparr>"
  by (simp add: process_cases raise_alert_cases Let_def predict_calls_def built_tx_record_def
      built_signature_def built_alert_record_def)

lemma response_fields:
  "map_of (response_of tx p a h) ''success'' = Some (VBool True)"
  "map_of (response_of tx p a h) ''riskScore'' = Some (VFloat (risk_score p))"
  "map_of (response_of tx p a h) ''label'' = Some (VStr (label p))"
  "map_of (response_of tx p a h) ''explanation'' = Some (explanation p)"
  "map_of (response_of tx p a h) ''alertRegistered'' = Some (VBool a)"
  "map_of (response_of tx p a h) ''signatureHash'' = Some (opt_val VStr h)"
  by (simp_all add: response_of_def)

lemma alert_record_sigHash:
  "map_of (alert_record_of tx p h sev now) ''sigHash'' = Some (VStr h)"
  by (simp add: alert_record_of_def)

lemma predict_calls_no_derive: "CallDerive s \<notin> set (predict_calls env tx)"
  by (simp add: predict_calls_def)

section \<open>The alert invariant\<close>

text \<open>
  C1, as amended. When the assessment's label is \<open>suspicious\<close> and both writes of the
  store succeed, the run returns a response, the store gains exactly the transaction
  record and the alert record the run built, and the \<open>signatureHash\<close> of the response is
  the \<open>sigHash\<close> of the stored alert record: the digest of the fraud signature.
\<close>

theorem alert_invariant_when_writes_succeed:
  assumes "assessment env tx = Inr p" and "label p = ''suspicious''"
    and "insert_fault env TransactionsColl = None" and "insert_fault env AlertsColl = None"
  shows "outcome (process_transaction lib env db tx)
           = Inr (response_of tx p True (Some (derive lib (built_signature env tx p))))
       \<and> transactions (store (process_transaction lib env db tx))
           = transactions db @ [built_tx_record env tx p]
       \<and> alerts (store (process_transaction lib env db tx))
           = alerts db @ [built_alert_record lib env tx p]
       \<and> map_of (response_of tx p True (Some (derive lib (built_signature env tx p))))
             ''signatureHash''
           = map_of (built_alert_record lib env tx p) ''sigHash''
       \<and> map_of (built_alert_record lib env tx p) ''sigHash''
           = Some (VStr (derive lib (built_signature env tx p)))"
  using assms
  by (simp add: process_alert response_fields opt_val_def built_alert_record_def
      alert_record_sigHash)

text \<open>The theorem at the worked request, with a store that accepts both writes.\<close>

theorem alert_invariant_when_writes_succeed_witness:
  "assessment example_env example_tx = Inr suspicious_prediction
   \<and> label suspicious_prediction = ''suspicious''
   \<and> insert_fault example_env TransactionsColl = None
   \<and> insert_fault example_env AlertsColl = None
   \<and> transactions (store (process_transaction example_lib example_env empty_db example_tx))
       = [built_tx_record example_env example_tx suspicious_prediction]
   \<and> alerts (store (process_transaction example_lib example_env empty_db example_tx))
       = [built_alert_record example_lib example_env example_tx suspicious_prediction]"
proof -
  have l: "label suspicious_prediction = ''suspicious''"
    by (simp add: suspicious_prediction_def)
  have t: "insert_fault example_env TransactionsColl = None"
    and a: "insert_fault example_env AlertsColl = None"
    by (simp_all add: example_env_def)
  from alert_invariant_when_writes_succeed [OF example_assessment l t a, of example_lib empty_db]
  show ?thesis using example_assessment l t a by (simp add: empty_db_def)
qed

text \<open>
  The claim as stated, for every call with a \<open>suspicious\<close> label, fails when the write
  of the alert raises: the label is \<open>suspicious\<close>, no alert record is stored and the call
  ends in an HTTP 500.
\<close>

theorem alert_invariant_counterexample:
  "assessment (example_env\<lparr>insert_fault := only_fails AlertsColl ''alerts unavailable''\<rparr>) example_tx
     = Inr suspicious_prediction
   \<and> label suspicious_prediction = ''suspicious''
   \<and> alerts (store (process_transaction example_lib
        (example_env\<lparr>insert_fault := only_fails AlertsColl ''alerts unavailable''\<rparr>)
        empty_db example_tx)) = []
   \<and> outcome (process_transaction example_lib
        (example_env\<lparr>insert_fault := only_fails AlertsColl ''alerts unavailable''\<rparr>)
        empty_db example_tx) = Inl (HTTPException 500 ''alerts unavailable'')"
  by (simp add: process_cases raise_alert_cases assessment_def get_prediction_def example_env_def
      suspicious_prediction_def only_fails_def failed_def empty_db_def Let_def)

section \<open>The no-alert invariant\<close>

text \<open>
  C3, as amended. When the assessment's label is not \<open>suspicious\<close>, the run never calls
  the signature derivation (no such call is among its calls, and the run is the same
  whatever the serialization and hash functions are) and stores no alert record; it
  returns the response with \<open>alertRegistered = false\<close> and \<open>signatureHash = null\<close>
  when the write of the transaction succeeds, and ends in an HTTP 500 carrying the
  store's message when that write raises.
\<close>

theorem no_alert_invariant:
  assumes "assessment env tx = Inr p" and "label p \<noteq> ''suspicious''"
  shows "(\<forall>s. CallDerive s \<notin> set (calls (process_transaction lib env db tx)))
       \<and> (\<forall>lib'. process_transaction lib' env db tx = process_transaction lib env db tx)
       \<and> alerts (store (process_transaction lib env db tx)) = alerts db
       \<and> outcome (process_transaction lib env db tx)
           = (case insert_fault env TransactionsColl of
                None \<Rightarrow> Inr (response_of tx p False None)
              | Some e \<Rightarrow> Inl (HTTPException 500 e))
       \<and> map_of (response_of tx p False None) ''alertRegistered'' = Some (VBool False)
       \<and> map_of (response_of tx p False None) ''signatureHash'' = Some VNone"
proof (cases "insert_fault env TransactionsColl")
  case None
  then show ?thesis
    using assms
    by (simp add: process_no_alert response_fields opt_val_def predict_calls_no_derive)
next
  case (Some e)
  then show ?thesis
    using assms
    by (simp add: process_tx_write_fails failed_def response_fields opt_val_def
        predict_calls_no_derive)
qed


lemma normal_assessment: "assessment (normal_env\<lparr>insert_fault := f\<rparr>) example_tx = Inr normal_prediction"
  by (simp add: assessment_def normal_env_def example_env_def get_prediction_def)

lemma normal_label: "label normal_prediction \<noteq> ''suspicious''"
  by (simp add: normal_prediction_def)

text \<open>The theorem at the worked request, with an oracle that answers \<open>normal\<close>.\<close>

theorem no_alert_invariant_witness:
  "assessment normal_env example_tx = Inr normal_prediction
   \<and> label normal_prediction \<noteq> ''suspicious''
   \<and> alerts (store (process_transaction example_lib normal_env empty_db example_tx)) = []
   \<and> outcome (process_transaction example_lib normal_env empty_db example_tx)
       = Inr (response_of example_tx normal_prediction False None)"
proof -
  have a: "assessment normal_env example_tx = Inr normal_prediction"
    by (simp add: assessment_def normal_env_def example_env_def get_prediction_def)
  from no_alert_invariant [OF a normal_label, of example_lib empty_db]
  show ?thesis using a normal_label by (simp add: empty_db_def normal_env_def example_env_def)
qed

text \<open>
  The claim as stated, for every call whose label is not \<open>suspicious\<close>, fails when the
  write of the transaction raises: the call returns no response at all, it ends in an
  HTTP 500.
\<close>

theorem no_alert_invariant_counterexample:
  "assessment (normal_env\<lparr>insert_fault := only_fails TransactionsColl ''transactions unavailable''\<rparr>)
       example_tx = Inr normal_prediction
   \<and> label normal_prediction \<noteq> ''suspicious''
   \<and> outcome (process_transaction example_lib
        (normal_env\<lparr>insert_fault := only_fails TransactionsColl ''transactions unavailable''\<rparr>)
        empty_db example_tx) = Inl (HTTPException 500 ''transactions unavailable'')"
  by (simp add: normal_assessment normal_label process_tx_write_fails only_fails_def failed_def)

section \<open>The oracle is unavailable\<close>

lemma assessment_unavailable: "\<not> ML_AVAILABLE env \<Longrightarrow> assessment env tx = Inr fallback_prediction"
  by (simp add: assessment_def get_prediction_def)

lemma fallback_label: "label fallback_prediction \<noteq> ''suspicious''"
  by (simp add: fallback_prediction_def)

text \<open>
  C5, as amended. When the ML engine is not available, the run does not call the oracle:
  it works with the fixed fallback assessment (risk score \<open>0.1\<close>, label \<open>normal\<close>, an
  explanation with no features and no scores, model version \<open>N/A\<close>), calls neither the
  signature derivation nor the alert write, and returns a successful response with
  \<open>alertRegistered = false\<close> when the write of the transaction succeeds; when that write
  raises, the call ends in an HTTP 500 carrying the store's message.
\<close>

theorem oracle_unavailable_fallback:
  assumes "\<not> ML_AVAILABLE env"
  shows "assessment env tx = Inr fallback_prediction
       \<and> risk_score fallback_prediction = float_lit (1 / 10)
       \<and> label fallback_prediction = ''normal''
       \<and> explanation fallback_prediction
           = VDict [(''top_features'', VList []), (''model_scores'', VDict [])]
       \<and> model_version fallback_prediction = ''N/A''
       \<and> calls (process_transaction lib env db tx)
           = [CallSaveTransaction (built_tx_record env tx fallback_prediction)]
       \<and> alerts (store (process_transaction lib env db tx)) = alerts db
       \<and> outcome (process_transaction lib env db tx)
           = (case insert_fault env TransactionsColl of
                None \<Rightarrow> Inr (response_of tx fallback_prediction False None)
              | Some e \<Rightarrow> Inl (HTTPException 500 e))
       \<and> map_of (response_of tx fallback_prediction False None) ''success'' = Some (VBool True)
       \<and> map_of (response_of tx fallback_prediction False None) ''riskScore''
           = Some (VFloat (float_lit (1 / 10)))
       \<and> map_of (response_of tx fallback_prediction False None) ''label'' = Some (VStr ''normal'')
       \<and> map_of (response_of tx fallback_prediction False None) ''alertRegistered''
           = Some (VBool False)"
proof (cases "insert_fault env TransactionsColl")
  case None
  then show ?thesis
    using assms assessment_unavailable [OF assms, of tx] fallback_label
    by (simp add: process_no_alert response_fields predict_calls_def)
       (simp add: fallback_prediction_def)
next
  case (Some e)
  then show ?thesis
    using assms assessment_unavailable [OF assms, of tx]
    by (simp add: process_tx_write_fails failed_def response_fields predict_calls_def)
       (simp add: fallback_prediction_def)
qed

text \<open>The theorem at the worked request, with the ML engine switched off.\<close>

theorem oracle_unavailable_fallback_witness:
  "\<not> ML_AVAILABLE (example_env\<lparr>ML_AVAILABLE := False\<rparr>)
   \<and> outcome (process_transaction example_lib (example_env\<lparr>ML_AVAILABLE := False\<rparr>)
        empty_db example_tx) = Inr (response_of example_tx fallback_prediction False None)
   \<and> alerts (store (process_transaction example_lib (example_env\<lparr>ML_AVAILABLE := False\<rparr>)
        empty_db example_tx)) = []"
proof -
  have m: "\<not> ML_AVAILABLE (example_env\<lparr>ML_AVAILABLE := False\<rparr>)"
    by simp
  from oracle_unavailable_fallback [OF m, of example_tx example_lib empty_db]
  show ?thesis by (simp add: example_env_def empty_db_def)
qed

text \<open>
  The claim as stated, that no call made while the oracle is unavailable fails, is false
  when the write of the transaction raises.
\<close>

theorem oracle_unavailable_counterexample:
  "\<not> ML_AVAILABLE (example_env\<lparr>ML_AVAILABLE := False,
        insert_fault := only_fails TransactionsColl ''transactions unavailable''\<rparr>)
   \<and> outcome (process_transaction example_lib
        (example_env\<lparr>ML_AVAILABLE := False,
           insert_fault := only_fails TransactionsColl ''transactions unavailable''\<rparr>)
        empty_db example_tx) = Inl (HTTPException 500 ''transactions unavailable'')"
  by (simp add: assessment_unavailable process_tx_write_fails only_fails_def failed_def)

section \<open>A failing alert write\<close>

text \<open>
  C6, as amended. When the write of the transaction succeeded and the write of the alert
  raises, the call ends in an HTTP 500 whose detail is the store's message; the
  transaction record stays stored and no alert record is. The report has no field of its
  own for this state: a call whose transaction write raises with the same message ends
  in the same HTTP 500.
\<close>

theorem alert_write_failure_report:
  assumes "assessment env tx = Inr p" and "label p = ''suspicious''"
    and "insert_fault env TransactionsColl = None" and "insert_fault env AlertsColl = Some e"
  shows "outcome (process_transaction lib env db tx) = Inl (HTTPException 500 e)
       \<and> transactions (store (process_transaction lib env db tx))
           = transactions db @ [built_tx_record env tx p]
       \<and> alerts (store (process_transaction lib env db tx)) = alerts db
       \<and> (\<forall>env'. assessment env' tx = Inr p \<and> insert_fault env' TransactionsColl = Some e
            \<longrightarrow> outcome (process_transaction lib env' db tx)
                = outcome (process_transaction lib env db tx))"
  using assms by (simp add: process_alert_write_fails process_tx_write_fails failed_def)

text \<open>The theorem at the worked request, with a store whose alert write raises.\<close>

theorem alert_write_failure_report_witness:
  "assessment (example_env\<lparr>insert_fault := only_fails AlertsColl ''connection refused''\<rparr>)
       example_tx = Inr suspicious_prediction
   \<and> label suspicious_prediction = ''suspicious''
   \<and> insert_fault (example_env\<lparr>insert_fault := only_fails AlertsColl ''connection refused''\<rparr>)
       TransactionsColl = None
   \<and> insert_fault (example_env\<lparr>insert_fault := only_fails AlertsColl ''connection refused''\<rparr>)
       AlertsColl = Some ''connection refused''
   \<and> outcome (process_transaction example_lib
        (example_env\<lparr>insert_fault := only_fails AlertsColl ''connection refused''\<rparr>)
        empty_db example_tx) = Inl (HTTPException 500 ''connection refused'')
   \<and> assessment
        (example_env\<lparr>insert_fault := only_fails TransactionsColl ''connection refused''\<rparr>)
        example_tx = Inr suspicious_prediction
   \<and> insert_fault
        (example_env\<lparr>insert_fault := only_fails TransactionsColl ''connection refused''\<rparr>)
        TransactionsColl = Some ''connection refused''
   \<and> outcome (process_transaction example_lib
        (example_env\<lparr>insert_fault := only_fails TransactionsColl ''connection refused''\<rparr>)
        empty_db example_tx) = Inl (HTTPException 500 ''connection refused'')"
proof -
  let ?env = "example_env\<lparr>insert_fault := only_fails AlertsColl ''connection refused''\<rparr>"
  let ?env' = "example_env\<lparr>insert_fault := only_fails TransactionsColl ''connection refused''\<rparr>"
  have a: "assessment ?env example_tx = Inr suspicious_prediction"
    and a': "assessment ?env' example_tx = Inr suspicious_prediction"
    by (simp_all add: assessment_def example_env_def get_prediction_def)
  have l: "label suspicious_prediction = ''suspicious''"
    by (simp add: suspicious_prediction_def)
  have t: "insert_fault ?env TransactionsColl = None"
    and f: "insert_fault ?env AlertsColl = Some ''connection refused''"
    and t': "insert_fault ?env' TransactionsColl = Some ''connection refused''"
    by (simp_all add: only_fails_def)
  note r = alert_write_failure_report [OF a l t f, of example_lib empty_db]
  from r have o: "outcome (process_transaction example_lib ?env empty_db example_tx)
                    = Inl (HTTPException 500 ''connection refused'')"
    by blast
  from r a' t' have "outcome (process_transaction example_lib ?env' empty_db example_tx)
                    = outcome (process_transaction example_lib ?env empty_db example_tx)"
    by blast
  with o have o': "outcome (process_transaction example_lib ?env' empty_db example_tx)
                    = Inl (HTTPException 500 ''connection refused'')"
    by simp
  from a l t f o a' t' o' show ?thesis
    by blast
qed

text \<open>
  The claim as stated, that the caller can tell the two failures apart, is false: with
  the same message from the store, a failing alert write (transaction stored) and a
  failing transaction write (nothing stored) give the caller the same outcome.
\<close>

theorem alert_write_failure_counterexample:
  "insert_fault (example_env\<lparr>insert_fault := only_fails AlertsColl ''connection refused''\<rparr>)
       TransactionsColl = None
   \<and> insert_fault (example_env\<lparr>insert_fault := only_fails AlertsColl ''connection refused''\<rparr>)
       AlertsColl = Some ''connection refused''
   \<and> insert_fault
       (example_env\<lparr>insert_fault := only_fails TransactionsColl ''connection refused''\<rparr>)
       TransactionsColl = Some ''connection refused''
   \<and> outcome (process_transaction example_lib
        (example_env\<lparr>insert_fault := only_fails AlertsColl ''connection refused''\<rparr>)
        empty_db example_tx)
     = outcome (process_transaction example_lib
        (example_env\<lparr>insert_fault := only_fails TransactionsColl ''connection refused''\<rparr>)
        empty_db example_tx)
   \<and> transactions (store (process_transaction example_lib
        (example_env\<lparr>insert_fault := only_fails AlertsColl ''connection refused''\<rparr>)
        empty_db example_tx)) \<noteq> []
   \<and> transactions (store (process_transaction example_lib
        (example_env\<lparr>insert_fault := only_fails TransactionsColl ''connection refused''\<rparr>)
        empty_db example_tx)) = []"
proof -
  let ?ea = "example_env\<lparr>insert_fault := only_fails AlertsColl ''connection refused''\<rparr>"
  let ?et = "example_env\<lparr>insert_fault := only_fails TransactionsColl ''connection refused''\<rparr>"
  have a: "assessment ?ea example_tx = Inr suspicious_prediction"
    and a': "assessment ?et example_tx = Inr suspicious_prediction"
    by (simp_all add: assessment_def example_env_def get_prediction_def)
  have l: "label suspicious_prediction = ''suspicious''"
    by (simp add: suspicious_prediction_def)
  have t: "insert_fault ?ea TransactionsColl = None"
    and f: "insert_fault ?ea AlertsColl = Some ''connection refused''"
    and t': "insert_fault ?et TransactionsColl = Some ''connection refused''"
    by (simp_all add: only_fails_def)
  show ?thesis
    using t f t'
    by (simp add: process_alert_write_fails [OF a t l f] process_tx_write_fails [OF a' t']
        failed_def empty_db_def)
qed


section \<open>The gas fields\<close>

lemma float_lit_50: "float_lit 50 = Fin 50"
  unfolding float_lit_def
  by (rule round_binary64_at [where e = 5])
     (simp_all add: pow2_def round_half_even_def Let_def)

lemma tx_record_keys:
  "map fst (built_tx_record env tx p)
     = [''txHash'', ''from'', ''to'', ''amount'', ''timestamp'', ''riskScore'', ''label'',
        ''modelVersion'', ''processed_at'']"
  by (simp add: built_tx_record_def tx_record_of_def)

lemma process_transactions_cases:
  "transactions (store (process_transaction lib env db tx)) = transactions db
   \<or> (\<exists>p. assessment env tx = Inr p
          \<and> transactions (store (process_transaction lib env db tx))
              = transactions db @ [built_tx_record env tx p])"
  by (simp add: process_cases raise_alert_cases Let_def failed_def built_tx_record_def
      split: sum.splits option.splits)

lemma process_calls_head:
  "ML_AVAILABLE env \<Longrightarrow>
   hd (calls (process_transaction lib env db tx))
     = CallPredict (tx_data_of tx (fst (timestamp_or_now env tx)))"
  by (simp add: process_cases raise_alert_cases Let_def failed_def
      split: sum.splits option.splits)

text \<open>
  C7, as amended. The normalized transaction that a run hands to the oracle carries
  \<open>gas_price\<close> and \<open>gas_used\<close>: the caller's value when given, \<open>null\<close> when the caller
  sent \<open>null\<close>, and the defaults \<open>50.0\<close> and \<open>21000\<close> when absent. The transaction record
  a run stores has the nine fields listed and no gas field.
\<close>

theorem gas_fields_reach_the_oracle_only:
  "map_of (tx_data_of (parse_Transaction b) ts) ''gas_price''
     = Some (case body_gas_price b of
               Absent \<Rightarrow> VFloat (Fin 50) | Null \<Rightarrow> VNone | Given v \<Rightarrow> VFloat v)
   \<and> map_of (tx_data_of (parse_Transaction b) ts) ''gas_used''
     = Some (case body_gas_used b of
               Absent \<Rightarrow> VInt 21000 | Null \<Rightarrow> VNone | Given v \<Rightarrow> VInt v)
   \<and> (ML_AVAILABLE env \<longrightarrow>
        hd (calls (process_transaction lib env db (parse_Transaction b)))
          = CallPredict (tx_data_of (parse_Transaction b)
              (fst (timestamp_or_now env (parse_Transaction b)))))
   \<and> (transactions (store (process_transaction lib env db (parse_Transaction b)))
         = transactions db
       \<or> (\<exists>p. transactions (store (process_transaction lib env db (parse_Transaction b)))
                 = transactions db @ [built_tx_record env (parse_Transaction b) p]))
   \<and> (\<forall>p. map fst (built_tx_record env (parse_Transaction b) p)
         = [''txHash'', ''from'', ''to'', ''amount'', ''timestamp'', ''riskScore'', ''label'',
            ''modelVersion'', ''processed_at''])"
proof -
  have "map_of (tx_data_of (parse_Transaction b) ts) ''gas_price''
     = Some (case body_gas_price b of
               Absent \<Rightarrow> VFloat (Fin 50) | Null \<Rightarrow> VNone | Given v \<Rightarrow> VFloat v)"
    by (simp add: tx_data_of_def parse_Transaction_def with_default_def opt_val_def float_lit_50
        split: field.splits)
  moreover have "map_of (tx_data_of (parse_Transaction b) ts) ''gas_used''
     = Some (case body_gas_used b of
               Absent \<Rightarrow> VInt 21000 | Null \<Rightarrow> VNone | Given v \<Rightarrow> VInt v)"
    by (simp add: tx_data_of_def parse_Transaction_def with_default_def opt_val_def
        split: field.splits)
  moreover have "transactions (store (process_transaction lib env db (parse_Transaction b)))
         = transactions db
       \<or> (\<exists>p. transactions (store (process_transaction lib env db (parse_Transaction b)))
                 = transactions db @ [built_tx_record env (parse_Transaction b) p])"
    using process_transactions_cases [of lib env db "parse_Transaction b"] by blast
  ultimately show ?thesis
    by (simp add: process_calls_head tx_record_keys)
qed

text \<open>The theorem at a request that gives \<open>gas_used\<close> and leaves \<open>gas_price\<close> out.\<close>

theorem gas_fields_witness:
  "ML_AVAILABLE example_env
   \<and> hd (calls (process_transaction example_lib example_env empty_db
        (parse_Transaction example_body)))
     = CallPredict
         [(''from'', VStr ''0x1''), (''to'', VStr ''0x2''), (''amount'', VFloat (Fin 10)),
          (''timestamp'', VStr ''2024-01-01T00:00:00''), (''gas_price'', VFloat (Fin 50)),
          (''gas_used'', VInt 30000)]"
proof -
  have m: "ML_AVAILABLE example_env"
    by (simp add: example_env_def)
  have "timestamp_or_now example_env (parse_Transaction example_body) = (''2024-01-01T00:00:00'', 1)"
    by (simp add: timestamp_or_now_def parse_Transaction_def example_body_def with_default_def
        example_env_def)
  with gas_fields_reach_the_oracle_only [of example_body _ example_env example_lib empty_db] m
  show ?thesis
    by (simp add: tx_data_of_def parse_Transaction_def example_body_def with_default_def
        opt_val_def float_lit_50)
qed

text \<open>
  The claim as stated, that the stored transaction record contains the gas fields, is
  false: for a request with \<open>gas_used = 30000\<close> the stored record has no gas field
  under either spelling of the names.
\<close>

theorem gas_fields_counterexample:
  "body_gas_used example_body = Given 30000
   \<and> (\<exists>r. transactions (store (process_transaction example_lib example_env empty_db
               (parse_Transaction example_body))) = [r]
          \<and> map_of r ''gasPrice'' = None \<and> map_of r ''gasUsed'' = None
          \<and> map_of r ''gas_price'' = None \<and> map_of r ''gas_used'' = None)"
proof -
  have a: "assessment example_env (parse_Transaction example_body) = Inr suspicious_prediction"
    by (simp add: assessment_def example_env_def get_prediction_def)
  have l: "label suspicious_prediction = ''suspicious''"
    by (simp add: suspicious_prediction_def)
  have t: "insert_fault example_env TransactionsColl = None"
    and f: "insert_fault example_env AlertsColl = None"
    by (simp_all add: example_env_def)
  show ?thesis
    unfolding process_alert [OF a t l f]
    by (simp add: empty_db_def built_tx_record_def tx_record_of_def example_body_def)
qed

section \<open>An empty timestamp\<close>

lemma empty_timestamp: "timestamp tx = Some [] \<Longrightarrow> timestamp_or_now env tx = (clock env 0, 1)"
  by (simp add: timestamp_or_now_def)

text \<open>
  C10. When the timestamp of the request is the empty string, the run takes the first
  reading of the clock in its place; every transaction record it writes, the record the
  store keeps, and every fraud signature it derives carry that reading.
\<close>

theorem empty_timestamp_is_replaced_by_now:
  assumes "timestamp tx = Some []"
  shows "timestamp_or_now env tx = (clock env 0, 1)
       \<and> (\<forall>r. CallSaveTransaction r \<in> set (calls (process_transaction lib env db tx))
            \<longrightarrow> map_of r ''timestamp'' = Some (VStr (clock env 0)))
       \<and> (transactions (store (process_transaction lib env db tx)) = transactions db
          \<or> (\<exists>r. transactions (store (process_transaction lib env db tx)) = transactions db @ [r]
                \<and> map_of r ''timestamp'' = Some (VStr (clock env 0))))
       \<and> (\<forall>s. CallDerive s \<in> set (calls (process_transaction lib env db tx))
            \<longrightarrow> map_of s ''timestamp'' = Some (VStr (clock env 0)))"
  using empty_timestamp [OF assms, of env]
  by (simp add: process_cases raise_alert_cases Let_def failed_def tx_record_of_def
      fraud_signature_of_def split: sum.splits option.splits)

text \<open>
  The theorem at the worked request, whose timestamp is empty and whose run stores a
  record and derives a signature.
\<close>

theorem empty_timestamp_witness:
  "timestamp example_tx = Some []
   \<and> clock example_env 0 = ''2024-01-01T00:00:00''
   \<and> (\<exists>r. transactions (store (process_transaction example_lib example_env empty_db example_tx))
            = [r]
          \<and> map_of r ''timestamp'' = Some (VStr ''2024-01-01T00:00:00''))
   \<and> (\<exists>r. CallSaveTransaction r \<in> set (calls (process_transaction example_lib example_env
              empty_db example_tx))
          \<and> map_of r ''timestamp'' = Some (VStr ''2024-01-01T00:00:00''))
   \<and> (\<exists>s. CallDerive s \<in> set (calls (process_transaction example_lib example_env empty_db
              example_tx))
          \<and> map_of s ''timestamp'' = Some (VStr ''2024-01-01T00:00:00''))"
proof -
  have e: "timestamp example_tx = Some []"
    by (simp add: example_tx_def)
  have l: "label suspicious_prediction = ''suspicious''"
    by (simp add: suspicious_prediction_def)
  have t: "insert_fault example_env TransactionsColl = None"
    and f: "insert_fault example_env AlertsColl = None"
    by (simp_all add: example_env_def)
  have c: "clock example_env 0 = ''2024-01-01T00:00:00''"
    by (simp add: example_env_def)
  have r: "process_transaction example_lib example_env empty_db example_tx
     = \<lparr>outcome = Inr (response_of example_tx suspicious_prediction True
           (Some (derive example_lib (built_signature example_env example_tx suspicious_prediction)))),
        store = empty_db\<lparr>transactions := transactions empty_db
                   @ [built_tx_record example_env example_tx suspicious_prediction],
                 alerts := alerts empty_db
                   @ [built_alert_record example_lib example_env example_tx suspicious_prediction]\<rparr>,
        calls = predict_calls example_env example_tx @
          [CallSaveTransaction (built_tx_record example_env example_tx suspicious_prediction),
           CallDerive (built_signature example_env example_tx suspicious_prediction),
           CallSaveAlert (built_alert_record example_lib example_env example_tx
             suspicious_prediction)]\<rparr>"
    by (rule process_alert [OF example_assessment t l f])
  from empty_timestamp_is_replaced_by_now [OF e, of example_env example_lib empty_db]
  show ?thesis
    using e c
    unfolding r
    by (auto simp: empty_db_def built_tx_record_def tx_record_of_def built_signature_def
        fraud_signature_of_def example_timestamp)
qed

section \<open>The reads of \<open>get_statistics\<close>\<close>

lemma fraud_count_bounds: "0 \<le> fraud_count db" "fraud_count db \<le> total_count db"
  by (simp_all add: fraud_count_def total_count_def)

lemma matches_single: "matches [(k, v)] = (\<lambda>d. map_of d k = Some v)"
  by (rule ext) (simp add: matches_def)

lemma matches_empty: "matches [] = (\<lambda>d. True)"
  by (rule ext) (simp add: matches_def)

lemma compute_statistics_answered:
  assumes "counts_answered env"
  shows "compute_statistics env db =
     (case accuracy_of (total_count db) (fraud_count db) of
        Inl e \<Rightarrow> Inl e
      | Inr accuracy \<Rightarrow>
          Inr [(''totalTx'', VInt (total_count db)), (''fraudDetected'', VInt (fraud_count db)),
               (''accuracy'', py_round2 accuracy), (''activeAlerts'', VInt (active_count db))])"
  using assms
  by (simp add: compute_statistics_def count_documents_def documents_def matches_single
      matches_empty total_count_def fraud_count_def active_count_def counts_answered_def
      split: sum.splits)

lemma get_statistics_unanswered:
  assumes "\<not> counts_answered env"
  shows "get_statistics env db = zero_statistics"
  using assms
  by (auto simp: get_statistics_def compute_statistics_def count_documents_def
      counts_answered_def split: sum.splits option.splits)

lemma accuracy_of_no_transactions: "accuracy_of 0 f = Inr (VInt 0)"
  by (simp add: accuracy_of_def)

lemma get_statistics_keys:
  "map fst (get_statistics env db) = [''totalTx'', ''fraudDetected'', ''accuracy'', ''activeAlerts'']"
proof (cases "counts_answered env")
  case True
  then show ?thesis
    by (simp add: get_statistics_def compute_statistics_answered zero_statistics_def
        split: sum.splits)
next
  case False
  then show ?thesis
    by (simp add: get_statistics_unanswered zero_statistics_def)
qed

lemma get_statistics_empty:
  assumes "transactions db = []" and "alerts db = []"
  shows "get_statistics env db = zero_statistics"
proof (cases "counts_answered env")
  case True
  then show ?thesis
    using assms
    by (simp add: get_statistics_def compute_statistics_answered total_count_def
        fraud_count_def active_count_def accuracy_of_no_transactions zero_statistics_def)
next
  case False
  then show ?thesis
    by (rule get_statistics_unanswered)
qed

section \<open>The statistics on a failing store\<close>

text \<open>
  C9. \<open>get_statistics\<close> returns a dictionary with the four fields of the statistics on
  every call: it never raises. When any of the three counts it reads from the store
  raises, it returns the all-zero statistics, which is also what it returns on an empty
  store that answers every count.
\<close>

theorem get_statistics_swallows_store_failures:
  "map fst (get_statistics env db) = [''totalTx'', ''fraudDetected'', ''accuracy'', ''activeAlerts'']
   \<and> (\<not> counts_answered env \<longrightarrow> get_statistics env db = zero_statistics)
   \<and> (counts_answered env' \<longrightarrow> get_statistics env' empty_db = zero_statistics)
   \<and> zero_statistics
       = [(''totalTx'', VInt 0), (''fraudDetected'', VInt 0), (''accuracy'', VInt 0),
          (''activeAlerts'', VInt 0)]"
proof -
  have "get_statistics env' empty_db = zero_statistics"
    by (rule get_statistics_empty) (simp_all add: empty_db_def)
  then show ?thesis
    by (simp add: get_statistics_keys get_statistics_unanswered) (simp add: zero_statistics_def)
qed

text \<open>
  The theorem at a store of two transactions and one alert whose alert count raises, and
  at the empty store.
\<close>

theorem get_statistics_swallows_store_failures_witness:
  "\<not> counts_answered (example_env\<lparr>count_fault := (\<lambda>c f. if c = AlertsColl then Some ''timeout'' else None)\<rparr>)
   \<and> get_statistics
        (example_env\<lparr>count_fault := (\<lambda>c f. if c = AlertsColl then Some ''timeout'' else None)\<rparr>)
        \<lparr>transactions = [labelled ''suspicious'', labelled ''normal''],
         alerts = [[(''status'', VStr ''active'')]]\<rparr>
      = zero_statistics
   \<and> counts_answered example_env
   \<and> get_statistics example_env empty_db = zero_statistics"
proof -
  let ?env = "example_env\<lparr>count_fault := (\<lambda>c f. if c = AlertsColl then Some ''timeout'' else None)\<rparr>"
  have f: "\<not> counts_answered ?env"
    by (simp add: counts_answered_def)
  have g: "counts_answered example_env"
    by (simp add: counts_answered_def example_env_def)
  from get_statistics_swallows_store_failures [of ?env _ example_env]
  show ?thesis
    using f g by blast
qed

section \<open>The accuracy of the statistics\<close>

lemma float_mul_finite:
  "a \<noteq> 0 \<Longrightarrow> b \<noteq> 0 \<Longrightarrow> float_mul (Fin a) (Fin b) = round_binary64 (a * b)"
  by (simp add: float_mul_def is_inf_def is_zero_def)

lemma float_mul_zero: "0 \<le> b \<Longrightarrow> float_mul (Fin 0) (Fin b) = Fin 0"
  by (simp add: float_mul_def is_inf_def is_zero_def is_neg_def)

lemma accuracy_of_all_fraud:
  assumes "0 < t"
  shows "accuracy_of t t = Inr (VFloat (Fin 0))"
  using assms by (simp add: accuracy_of_def int_truediv_def float_mul_zero)

lemma float_round2_zero: "float_round2 (Fin 0) = float_lit (of_int 0 / 100)"
  by (simp add: float_round2_def float_lit_def round_half_even_def round_binary64_zero)

lemma abs_diff_via: "\<bar>a - c\<bar> \<le> \<bar>a - b\<bar> + \<bar>b - c\<bar>" for a b c :: rat
  by linarith

lemma abs_hundred: "\<bar>100 * a\<bar> = 100 * \<bar>a\<bar>" for a :: rat
  by (simp add: abs_mult)

lemma abs_div_hundred: "\<bar>a / 100\<bar> = \<bar>a\<bar> / 100" for a :: rat
  by (simp add: abs_divide)

lemma two_decimal_nearest:
  fixes s n t :: int and w :: rat
  assumes t: "0 < t" "t \<le> 2 ^ 37"
    and w: "\<bar>w - of_int n * 10000 / of_int t\<bar> \<le> 30000 / 2 ^ 53"
    and s: "\<bar>of_int s - w\<bar> \<le> 1 / 2"
  shows "\<bar>(of_int s :: rat) - of_int n * 10000 / of_int t\<bar> \<le> 1 / 2"
proof (rule ccontr)
  assume "\<not> ?thesis"
  then have gt: "1 / 2 < \<bar>(of_int s :: rat) - of_int n * 10000 / of_int t\<bar>"
    by simp
  define D where "D = s * t - n * 10000"
  have tpos: "(0::rat) < of_int t"
    using t(1) by simp
  have D: "\<bar>(of_int s :: rat) - of_int n * 10000 / of_int t\<bar> = of_int \<bar>D\<bar> / of_int t"
  proof -
    have "(of_int s :: rat) - of_int n * 10000 / of_int t = of_int D / of_int t"
      using tpos by (simp add: D_def field_simps)
    then show ?thesis
      using tpos by (simp add: abs_divide)
  qed
  have "(of_int t :: rat) < of_int (2 * \<bar>D\<bar>)"
    using gt tpos by (simp add: D pos_less_divide_eq)
  then have "t < 2 * \<bar>D\<bar>"
    by (rule iffD1 [OF of_int_less_iff])
  then have "t + 1 \<le> 2 * \<bar>D\<bar>"
    by simp
  then have "(of_int (t + 1) :: rat) \<le> of_int (2 * \<bar>D\<bar>)"
    by (rule iffD2 [OF of_int_le_iff])
  then have A: "(of_int t + 1 :: rat) \<le> 2 * of_int \<bar>D\<bar>"
    by simp
  have "(of_int t + 1) / (2 * of_int t) \<le> (2 * of_int \<bar>D\<bar>) / (2 * (of_int t :: rat))"
    by (rule divide_right_mono) (use A tpos in simp_all)
  also have "\<dots> = of_int \<bar>D\<bar> / of_int t"
    by simp
  finally have "(of_int t + 1) / (2 * of_int t) \<le> (of_int \<bar>D\<bar> :: rat) / of_int t" .
  moreover have "(of_int t + 1) / (2 * of_int t) = 1 / 2 + 1 / (2 * (of_int t :: rat))"
    using tpos by (simp add: add_divide_distrib)
  ultimately have low:
    "1 / 2 + 1 / (2 * of_int t) \<le> \<bar>(of_int s :: rat) - of_int n * 10000 / of_int t\<bar>"
    by (simp add: D)
  have "(of_int t :: rat) \<le> of_int (2 ^ 37)"
    using t(2) by (rule iffD2 [OF of_int_le_iff])
  then have "(of_int t :: rat) \<le> 2 ^ 37"
    by simp
  then have "1 / (2 * 2 ^ 37) \<le> 1 / (2 * (of_int t :: rat))"
    using tpos by (simp add: frac_le)
  then have gap: "(32768 :: rat) / 2 ^ 53 \<le> 1 / (2 * of_int t)"
    by simp
  have "\<bar>(of_int s :: rat) - of_int n * 10000 / of_int t\<bar>
          \<le> \<bar>of_int s - w\<bar> + \<bar>w - of_int n * 10000 / of_int t\<bar>"
    by (rule abs_diff_via)
  also have "\<dots> \<le> 1 / 2 + 30000 / 2 ^ 53"
    using w s by simp
  finally have "\<bar>(of_int s :: rat) - of_int n * 10000 / of_int t\<bar> \<le> 1 / 2 + 30000 / 2 ^ 53" .
  with low gap show False
    by simp
qed


lemma accuracy_of_rounded:
  assumes t: "0 < t" "t \<le> 2 ^ 37" and f: "0 \<le> f" "f < t"
  shows "\<exists>d s. accuracy_of t f = Inr (VFloat (Fin d))
             \<and> float_round2 (Fin d) = float_lit (of_int s / 100)
             \<and> \<bar>of_int s / 100 - exact_accuracy t f\<bar> \<le> 1 / 200"
proof -
  define n where "n = t - f"
  define q :: rat where "q = of_int n / of_int t"
  have n: "1 \<le> n" "n \<le> t"
    using f by (simp_all add: n_def)
  have tpos: "(0::rat) < of_int t"
    using t(1) by simp
  have t_le: "(of_int t :: rat) \<le> 2 ^ 37"
  proof -
    have "(of_int t :: rat) \<le> of_int (2 ^ 37)"
      using t(2) by (rule iffD2 [OF of_int_le_iff])
    then show ?thesis by simp
  qed
  have n_ge: "(1::rat) \<le> of_int n"
    using n(1) by simp
  have n_le: "(of_int n :: rat) \<le> of_int t"
    using n(2) by simp
  have q_hi: "q \<le> 1"
    using tpos n_le by (simp add: q_def)
  have q_lo: "1 / 2 ^ 37 \<le> q"
  proof -
    have "(1::rat) / 2 ^ 37 \<le> 1 / of_int t"
      using tpos t_le by (simp add: frac_le)
    also have "\<dots> \<le> of_int n / of_int t"
      using tpos n_ge by (simp add: divide_right_mono)
    finally show ?thesis by (simp add: q_def)
  qed
  have q_pos: "0 < q"
    using q_lo by (rule less_le_trans [rotated]) simp
  have tiny: "pow2 (- 1022) \<le> 1 / 2 ^ 37"
  proof -
    have "pow2 (- 1022) \<le> pow2 (- 37)" by simp
    also have "\<dots> = 1 / 2 ^ 37" by (simp add: pow2_def)
    finally show ?thesis .
  qed
  have big: "(256::rat) < pow2 1023"
  proof -
    have "(256::rat) = pow2 8" by (simp add: pow2_def)
    also have "\<dots> < pow2 1023" by simp
    finally show ?thesis .
  qed
  have "pow2 (- 1022) \<le> \<bar>q\<bar>" and "\<bar>q\<bar> < pow2 1023"
    using tiny q_lo q_hi big q_pos by simp_all
  then obtain d1 where d1: "round_binary64 q = Fin d1" and e1: "\<bar>d1 - q\<bar> \<le> \<bar>q\<bar> / 2 ^ 53"
    using round_binary64_error [of q] by blast
  have e1': "\<bar>d1 - q\<bar> \<le> q / 2 ^ 53"
    using e1 q_pos by simp
  have "q / 2 ^ 53 \<le> q / 2"
    using q_pos by (simp add: frac_le)
  with e1' have d1_lo: "q / 2 \<le> d1" and d1_hi: "d1 \<le> 2 * q"
    by linarith+
  define x2 where "x2 = d1 * 100"
  have x2_lo: "1 / 2 ^ 37 \<le> x2" and x2_hi: "x2 \<le> 200"
    using d1_lo d1_hi q_lo q_hi by (simp_all add: x2_def)
  have x2_pos: "0 < x2"
    using x2_lo by (rule less_le_trans [rotated]) simp
  have "pow2 (- 1022) \<le> \<bar>x2\<bar>" and "\<bar>x2\<bar> < pow2 1023"
    using tiny x2_lo x2_hi big x2_pos by simp_all
  then obtain d2 where d2: "round_binary64 x2 = Fin d2" and e2: "\<bar>d2 - x2\<bar> \<le> \<bar>x2\<bar> / 2 ^ 53"
    using round_binary64_error [of x2] by blast
  have e2': "\<bar>d2 - x2\<bar> \<le> 200 / 2 ^ 53"
  proof -
    have "\<bar>x2\<bar> / 2 ^ 53 \<le> 200 / 2 ^ 53"
      using x2_hi x2_pos by (simp add: divide_right_mono)
    with e2 show ?thesis by simp
  qed
  have e1'': "\<bar>d1 - q\<bar> \<le> 1 / 2 ^ 53"
  proof -
    have "q / 2 ^ 53 \<le> 1 / 2 ^ 53"
      using q_hi by (simp add: divide_right_mono)
    with e1' show ?thesis by simp
  qed
  have d1_pos: "0 < d1"
    using d1_lo q_pos by simp
  have d2_pos: "0 < d2"
  proof -
    have "\<bar>x2\<bar> / 2 ^ 53 < x2"
      using x2_pos by (simp add: field_simps)
    with e2 show ?thesis
      by linarith
  qed
  have "int_truediv n t = Inr (Fin d1)"
    using t(1) n(1) d1 by (simp add: int_truediv_def q_def [symmetric])
  moreover have "float_mul (Fin d1) (Fin 100) = Fin d2"
    using d1_pos d2 by (simp add: float_mul_finite x2_def [symmetric])
  ultimately have acc: "accuracy_of t f = Inr (VFloat (Fin d2))"
    using t(1) by (simp add: accuracy_of_def n_def [symmetric])
  define w where "w = d2 * 100"
  define s where "s = round_half_even w"
  have target: "of_int n * 10000 / of_int t = q * 10000"
    by (simp add: q_def)
  have "\<bar>w - q * 10000\<bar> = 100 * \<bar>d2 - q * 100\<bar>"
  proof -
    have "w - q * 10000 = 100 * (d2 - q * 100)"
      by (simp add: w_def)
    then have "\<bar>w - q * 10000\<bar> = \<bar>100 * (d2 - q * 100)\<bar>"
      by (simp only:)
    also have "\<dots> = 100 * \<bar>d2 - q * 100\<bar>"
      by (rule abs_hundred)
    finally show ?thesis .
  qed
  also have "\<dots> \<le> 100 * (\<bar>d2 - x2\<bar> + \<bar>x2 - q * 100\<bar>)"
    using abs_diff_via [of d2 "q * 100" x2] by simp
  also have "\<bar>x2 - q * 100\<bar> = 100 * \<bar>d1 - q\<bar>"
  proof -
    have "x2 - q * 100 = 100 * (d1 - q)"
      by (simp add: x2_def)
    then have "\<bar>x2 - q * 100\<bar> = \<bar>100 * (d1 - q)\<bar>"
      by (simp only:)
    also have "\<dots> = 100 * \<bar>d1 - q\<bar>"
      by (rule abs_hundred)
    finally show ?thesis .
  qed
  also have "100 * (\<bar>d2 - x2\<bar> + 100 * \<bar>d1 - q\<bar>) \<le> 100 * (200 / 2 ^ 53 + 100 * (1 / 2 ^ 53))"
    using e2' e1'' by simp
  also have "\<dots> = 30000 / 2 ^ 53"
    by simp
  finally have w_err: "\<bar>w - of_int n * 10000 / of_int t\<bar> \<le> 30000 / 2 ^ 53"
    by (simp add: target)
  have s_err: "\<bar>of_int s - w\<bar> \<le> 1 / 2"
    unfolding s_def by (rule round_half_even_error)
  have near: "\<bar>(of_int s :: rat) - of_int n * 10000 / of_int t\<bar> \<le> 1 / 2"
    using t w_err s_err by (rule two_decimal_nearest)
  have "of_int s / 100 - exact_accuracy t f = (of_int s - of_int n * 10000 / of_int t) / 100"
    by (simp add: exact_accuracy_def n_def)
  then have "\<bar>of_int s / 100 - exact_accuracy t f\<bar>
               = \<bar>((of_int s :: rat) - of_int n * 10000 / of_int t) / 100\<bar>"
    by (simp only:)
  also have "\<dots> = \<bar>(of_int s :: rat) - of_int n * 10000 / of_int t\<bar> / 100"
    by (rule abs_div_hundred)
  also have "\<dots> \<le> (1 / 2) / 100"
    using near by (simp add: divide_right_mono)
  finally have res: "\<bar>of_int s / 100 - exact_accuracy t f\<bar> \<le> 1 / 200"
    by simp
  have "float_round2 (Fin d2) = float_lit (of_int s / 100)"
    using d2_pos
    by (simp add: float_round2_def float_lit_def s_def w_def Let_def round_binary64_zero)
  with acc res show ?thesis
    by blast
qed


lemma accuracy_of_two_decimals:
  assumes t: "0 < t" "t \<le> 2 ^ 37" and f: "0 \<le> f" "f \<le> t"
  shows "\<exists>a s. accuracy_of t f = Inr a
             \<and> py_round2 a = VFloat (float_lit (of_int s / 100))
             \<and> \<bar>of_int s / 100 - exact_accuracy t f\<bar> \<le> 1 / 200"
proof (cases "f = t")
  case True
  have "accuracy_of t f = Inr (VFloat (Fin 0))"
    using t(1) True by (simp add: accuracy_of_all_fraud)
  moreover have "py_round2 (VFloat (Fin 0)) = VFloat (float_lit (of_int 0 / 100))"
    by (simp add: float_round2_zero)
  moreover have "\<bar>of_int 0 / 100 - exact_accuracy t f\<bar> \<le> 1 / 200"
    using True by (simp add: exact_accuracy_def)
  ultimately show ?thesis
    by blast
next
  case False
  with f have "f < t"
    by simp
  from accuracy_of_rounded [OF t f(1) this] show ?thesis
    by force
qed

lemma store_with_counts:
  "k \<le> n \<Longrightarrow> total_count (store_with n k) = int n"
  "fraud_count (store_with n k) = int k"
  by (simp_all add: total_count_def fraud_count_def store_with_def labelled_def)

lemma truediv_95_100: "int_truediv 95 100 = Inr (Fin (8556839292003942 / 2 ^ 53))"
proof -
  have "round_binary64 (95 / 100) = Fin (8556839292003942 / 2 ^ 53)"
    by (rule round_binary64_at [where e = "- 1"])
       (simp_all add: pow2_def round_half_even_def Let_def floor_rat_numeral_div)
  then show ?thesis
    by (simp add: int_truediv_def)
qed

lemma accuracy_of_100_5: "accuracy_of 100 5 = Inr (VFloat (Fin 95))"
proof -
  have "round_binary64 (8556839292003942 / 2 ^ 53 * 100) = Fin 95"
    by (rule round_binary64_at [where e = 6])
       (simp_all add: pow2_def round_half_even_def Let_def floor_rat_numeral_div)
  then show ?thesis
    using truediv_95_100 by (simp add: accuracy_of_def float_mul_finite)
qed

lemma float_round2_95: "float_round2 (Fin 95) = Fin 95"
proof -
  have "round_binary64 95 = Fin 95"
    by (rule round_binary64_at [where e = 6])
       (simp_all add: pow2_def round_half_even_def Let_def)
  then show ?thesis
    by (simp add: float_round2_def round_half_even_def)
qed

lemma accuracy_of_20000_19997:
  "accuracy_of 20000 19997 = Inr (VFloat (Fin (1080863910568919 / 72057594037927936)))"
proof -
  have "round_binary64 (3 / 20000) = Fin (5534023222112865 / 2 ^ 65)"
    by (rule round_binary64_at [where e = "- 13"])
       (simp_all add: pow2_def round_half_even_def Let_def floor_rat_numeral_div)
  moreover have "round_binary64 (5534023222112865 / 2 ^ 65 * 100) = Fin (1080863910568919 / 2 ^ 56)"
    by (rule round_binary64_at [where e = "- 7"])
       (simp_all add: pow2_def round_half_even_def Let_def floor_rat_numeral_div)
  ultimately show ?thesis
    by (simp add: accuracy_of_def int_truediv_def float_mul_finite)
qed

lemma float_round2_near_015:
  "float_round2 (Fin (1080863910568919 / 72057594037927936)) = float_lit (1 / 100)"
  by (simp add: float_round2_def float_lit_def round_half_even_def Let_def floor_rat_numeral_div)

lemma float_lit_hundredths:
  "float_lit (1 / 100) = Fin (5764607523034235 / 2 ^ 59)"
  "float_lit (2 / 100) = Fin (5764607523034235 / 2 ^ 58)"
  unfolding float_lit_def
  by (rule round_binary64_at [where e = "- 7"],
      simp_all add: pow2_def round_half_even_def Let_def floor_rat_numeral_div,
      rule round_binary64_at [where e = "- 6"],
      simp_all add: pow2_def round_half_even_def Let_def floor_rat_numeral_div)


lemma example_counts_answered: "counts_answered example_env"
  by (simp add: counts_answered_def example_env_def)

text \<open>
  C8, as amended. For a store of at most \<open>2^37\<close> transactions, \<open>get_statistics\<close> returns
  \<open>accuracy = 0\<close> when the \<open>totalTx\<close> it returns is \<open>0\<close>, and otherwise the float nearest
  to a two-decimal number that lies within \<open>0.005\<close> of the exact
  \<open>(totalTx - fraudDetected) / totalTx * 100\<close>: the ratio is computed and rounded in
  binary64, so when the exact value is halfway between two candidates either may come
  out. With \<open>totalTx = 100\<close> and \<open>fraudDetected = 5\<close> the accuracy is \<open>95.0\<close>, and an empty
  store yields the all-zero statistics.
\<close>

theorem accuracy_rounds_in_binary64:
  assumes "total_count db \<le> 2 ^ 37"
  shows "(\<exists>t f. map_of (get_statistics env db) ''totalTx'' = Some (VInt t)
            \<and> map_of (get_statistics env db) ''fraudDetected'' = Some (VInt f)
            \<and> (counts_answered env \<longrightarrow> t = total_count db \<and> f = fraud_count db)
            \<and> (t = 0 \<longrightarrow> map_of (get_statistics env db) ''accuracy'' = Some (VInt 0))
            \<and> (0 < t \<longrightarrow>
                 (\<exists>s::int. map_of (get_statistics env db) ''accuracy''
                               = Some (VFloat (float_lit (of_int s / 100)))
                           \<and> \<bar>of_int s / 100 - exact_accuracy t f\<bar> \<le> 1 / 200)))
       \<and> (counts_answered env \<and> total_count db = 100 \<and> fraud_count db = 5 \<longrightarrow>
            map_of (get_statistics env db) ''accuracy'' = Some (VFloat (Fin 95)))
       \<and> (transactions db = [] \<and> alerts db = [] \<longrightarrow> get_statistics env db = zero_statistics)"
proof -
  let ?stats = "get_statistics env db"
  have general: "\<exists>t f. map_of ?stats ''totalTx'' = Some (VInt t)
            \<and> map_of ?stats ''fraudDetected'' = Some (VInt f)
            \<and> (counts_answered env \<longrightarrow> t = total_count db \<and> f = fraud_count db)
            \<and> (t = 0 \<longrightarrow> map_of ?stats ''accuracy'' = Some (VInt 0))
            \<and> (0 < t \<longrightarrow>
                 (\<exists>s::int. map_of ?stats ''accuracy'' = Some (VFloat (float_lit (of_int s / 100)))
                           \<and> \<bar>of_int s / 100 - exact_accuracy t f\<bar> \<le> 1 / 200))"
  proof (cases "counts_answered env")
    case False
    then have "?stats = zero_statistics"
      by (rule get_statistics_unanswered)
    then have "map_of ?stats ''totalTx'' = Some (VInt 0)"
      and "map_of ?stats ''fraudDetected'' = Some (VInt 0)"
      and "map_of ?stats ''accuracy'' = Some (VInt 0)"
      by (simp_all add: zero_statistics_def)
    with False show ?thesis
      by auto
  next
    case True
    note c = compute_statistics_answered [OF True, of db]
    show ?thesis
    proof (cases "total_count db = 0")
      case zero: True
      then have "?stats = [(''totalTx'', VInt 0), (''fraudDetected'', VInt (fraud_count db)),
          (''accuracy'', VInt 0), (''activeAlerts'', VInt (active_count db))]"
        by (simp add: get_statistics_def c accuracy_of_no_transactions)
      then show ?thesis
        using zero by simp
    next
      case False
      then have pos: "0 < total_count db"
        by (simp add: total_count_def)
      from accuracy_of_two_decimals [OF pos assms fraud_count_bounds(1) fraud_count_bounds(2)]
      obtain a s where a: "accuracy_of (total_count db) (fraud_count db) = Inr a"
        and r: "py_round2 a = VFloat (float_lit (of_int s / 100))"
        and e: "\<bar>of_int s / 100 - exact_accuracy (total_count db) (fraud_count db)\<bar> \<le> 1 / 200"
        by blast
      have "?stats = [(''totalTx'', VInt (total_count db)),
          (''fraudDetected'', VInt (fraud_count db)),
          (''accuracy'', VFloat (float_lit (of_int s / 100))),
          (''activeAlerts'', VInt (active_count db))]"
        by (simp add: get_statistics_def c a r)
      then show ?thesis
        using pos e by auto
    qed
  qed
  have hundred: "map_of ?stats ''accuracy'' = Some (VFloat (Fin 95))"
    if "counts_answered env" "total_count db = 100" "fraud_count db = 5"
    using that
    by (simp add: get_statistics_def compute_statistics_answered accuracy_of_100_5
        float_round2_95)
  have empty: "?stats = zero_statistics" if "transactions db = []" "alerts db = []"
    using that by (rule get_statistics_empty)
  from general hundred empty show ?thesis
    by blast
qed

text \<open>The theorem at a store of 100 transactions, 5 of them suspicious.\<close>

theorem accuracy_rounds_in_binary64_witness:
  "total_count (store_with 100 5) \<le> 2 ^ 37
   \<and> counts_answered example_env
   \<and> total_count (store_with 100 5) = 100 \<and> fraud_count (store_with 100 5) = 5
   \<and> map_of (get_statistics example_env (store_with 100 5)) ''accuracy'' = Some (VFloat (Fin 95))
   \<and> (\<exists>s::int. map_of (get_statistics example_env (store_with 100 5)) ''accuracy''
                   = Some (VFloat (float_lit (of_int s / 100)))
               \<and> \<bar>of_int s / 100 - exact_accuracy 100 5\<bar> \<le> 1 / 200)
   \<and> total_count empty_db \<le> 2 ^ 37
   \<and> transactions empty_db = [] \<and> alerts empty_db = []
   \<and> get_statistics example_env empty_db = zero_statistics"
proof -
  have t: "total_count (store_with 100 5) = 100" and f: "fraud_count (store_with 100 5) = 5"
    by (simp_all add: store_with_counts)
  have b: "total_count (store_with 100 5) \<le> 2 ^ 37"
    by (simp add: t)
  have e: "transactions empty_db = []" "alerts empty_db = []"
    by (simp_all add: empty_db_def)
  have b': "total_count empty_db \<le> 2 ^ 37"
    by (simp add: total_count_def e)
  note full = accuracy_rounds_in_binary64 [OF b, of example_env]
  note none = accuracy_rounds_in_binary64 [OF b', of example_env]
  from full example_counts_answered t f
  have hundred: "map_of (get_statistics example_env (store_with 100 5)) ''accuracy''
                   = Some (VFloat (Fin 95))"
    by simp
  from full obtain t' f' where
    c: "counts_answered example_env \<longrightarrow>
          t' = total_count (store_with 100 5) \<and> f' = fraud_count (store_with 100 5)"
    and p: "0 < t' \<longrightarrow>
          (\<exists>s::int. map_of (get_statistics example_env (store_with 100 5)) ''accuracy''
                       = Some (VFloat (float_lit (of_int s / 100)))
                   \<and> \<bar>of_int s / 100 - exact_accuracy t' f'\<bar> \<le> 1 / 200)"
    by blast
  from c example_counts_answered t f have "t' = 100" and "f' = 5"
    by simp_all
  with p have near: "\<exists>s::int. map_of (get_statistics example_env (store_with 100 5)) ''accuracy''
                       = Some (VFloat (float_lit (of_int s / 100)))
                   \<and> \<bar>of_int s / 100 - exact_accuracy 100 5\<bar> \<le> 1 / 200"
    by simp
  from none e have zero: "get_statistics example_env empty_db = zero_statistics"
    by blast
  from b example_counts_answered t f hundred near b' e zero show ?thesis
    by blast
qed

text \<open>
  The claim as stated fails at a store of 20000 transactions of which 19997 are
  suspicious. The exact value is \<open>0.015\<close>, which rounds to \<open>0.02\<close> whether a tie goes up or
  to the even neighbour; the binary64 product is just below \<open>0.015\<close> and the code returns
  \<open>0.01\<close>.
\<close>

theorem accuracy_tie_counterexample:
  "counts_answered example_env
   \<and> total_count (store_with 20000 19997) = 20000
   \<and> fraud_count (store_with 20000 19997) = 19997
   \<and> exact_accuracy 20000 19997 = 15 / 1000
   \<and> round_half_even (exact_accuracy 20000 19997 * 100) = 2
   \<and> \<lfloor>exact_accuracy 20000 19997 * 100 + 1 / 2\<rfloor> = 2
   \<and> spec_accuracy 20000 19997 = VFloat (float_lit (2 / 100))
   \<and> map_of (get_statistics example_env (store_with 20000 19997)) ''accuracy''
       = Some (VFloat (float_lit (1 / 100)))
   \<and> float_lit (1 / 100) \<noteq> float_lit (2 / 100)"
proof -
  have t: "total_count (store_with 20000 19997) = 20000"
    and f: "fraud_count (store_with 20000 19997) = 19997"
    by (simp_all add: store_with_counts)
  have x: "exact_accuracy 20000 19997 = 15 / 1000"
    by (simp add: exact_accuracy_def)
  have r: "round_half_even (exact_accuracy 20000 19997 * 100) = 2"
    by (simp add: x round_half_even_def Let_def floor_rat_numeral_div)
  have u: "\<lfloor>exact_accuracy 20000 19997 * 100 + 1 / 2\<rfloor> = 2"
    by (simp add: x)
  have sp: "spec_accuracy 20000 19997 = VFloat (float_lit (2 / 100))"
    unfolding spec_accuracy_def r by simp
  have a: "map_of (get_statistics example_env (store_with 20000 19997)) ''accuracy''
       = Some (VFloat (float_lit (1 / 100)))"
    by (simp add: get_statistics_def compute_statistics_answered [OF example_counts_answered]
        t f accuracy_of_20000_19997 float_round2_near_015)
  have d: "float_lit (1 / 100) \<noteq> float_lit (2 / 100)"
    unfolding float_lit_hundredths by simp
  from example_counts_answered t f x r u sp a d show ?thesis
    by blast
qed


lemma accuracy_of_huge_store:
  "accuracy_of 14192852605369 3740526304145
     = Inr (VFloat (Fin (5182306164964066 / 70368744177664)))"
proof -
  have "round_binary64 (10452326301224 / 14192852605369) = Fin (6633351891154004 / 2 ^ 53)"
    by (rule round_binary64_at [where e = "- 1"])
       (simp_all add: pow2_def round_half_even_def Let_def floor_rat_numeral_div)
  moreover have "round_binary64 (6633351891154004 / 2 ^ 53 * 100) = Fin (5182306164964066 / 2 ^ 46)"
    by (rule round_binary64_at [where e = 6])
       (simp_all add: pow2_def round_half_even_def Let_def floor_rat_numeral_div)
  ultimately show ?thesis
    by (simp add: accuracy_of_def int_truediv_def float_mul_finite)
qed

text \<open>
  The bound on the size of the store cannot be dropped. With 14192852605369
  transactions of which 3740526304145 are suspicious, the exact value lies just below
  \<open>73.645\<close>; the binary64 product lies just above it, and the accuracy returned, \<open>73.65\<close>,
  is more than \<open>0.005\<close> away from the exact value.
\<close>

lemma accuracy_beyond_the_bound:
  "2 ^ 37 < (14192852605369 :: int)
   \<and> (\<exists>a. accuracy_of 14192852605369 3740526304145 = Inr a
          \<and> py_round2 a = VFloat (float_lit (7365 / 100)))
   \<and> 1 / 200 < \<bar>7365 / 100 - exact_accuracy 14192852605369 3740526304145\<bar>"
proof -
  have "float_round2 (Fin (5182306164964066 / 70368744177664)) = float_lit (7365 / 100)"
    by (simp add: float_round2_def float_lit_def round_half_even_def Let_def
        floor_rat_numeral_div)
  then have "py_round2 (VFloat (Fin (5182306164964066 / 70368744177664)))
               = VFloat (float_lit (7365 / 100))"
    by simp
  with accuracy_of_huge_store
  have "\<exists>a. accuracy_of 14192852605369 3740526304145 = Inr a
          \<and> py_round2 a = VFloat (float_lit (7365 / 100))"
    by blast
  moreover have "1 / 200 < \<bar>7365 / 100 - exact_accuracy 14192852605369 3740526304145\<bar>"
    by (simp add: exact_accuracy_def)
  ultimately show ?thesis
    by simp
qed


section \<open>The signature derivation\<close>

lemma map_eq_if_list_all2:
  "list_all2 (\<lambda>a b. f a = g b) xs ys \<Longrightarrow> map f xs = map g ys"
  by (induction rule: list_all2_induct) simp_all

lemma sort_key_fst_unique:
  fixes A B :: "(string \<times> 'a) list"
  assumes "distinct (map fst A)" and "distinct (map fst B)" and "set A = set B"
  shows "sort_key fst A = sort_key fst B"
proof (rule map_sorted_distinct_set_unique [where f = fst])
  have "inj_on fst (set A)"
    using assms(1) by (simp add: distinct_map)
  then show "inj_on fst (set (sort_key fst A) \<union> set (sort_key fst B))"
    using assms(3) by simp
  show "distinct (map fst (sort_key fst A))"
    using assms(1) by (simp add: distinct_map)
  show "distinct (map fst (sort_key fst B))"
    using assms(2) by (simp add: distinct_map)
  show "set (sort_key fst A) = set (sort_key fst B)"
    using assms(3) by simp
qed (simp_all add: sorted_sort_key)

lemma json_dumps_same_value:
  "same_value a b \<Longrightarrow> json_dumps lib a = json_dumps lib b"
proof (induction rule: same_value.induct)
  case (same_refl v)
  show ?case by simp
next
  case (same_list xs ys)
  then have "list_all2 (\<lambda>a b. json_dumps lib a = json_dumps lib b) xs ys"
    by (simp add: list_all2_conv_all_nth)
  then have "map (json_dumps lib) xs = map (json_dumps lib) ys"
    by (rule map_eq_if_list_all2)
  then show ?case by simp
next
  case (same_dict xs zs ys)
  let ?g = "map_prod id (json_dumps lib) :: string \<times> pyval \<Rightarrow> string \<times> string"
  from same_dict have dx: "distinct (map fst xs)" and dy: "distinct (map fst ys)"
    and st: "set zs = set ys"
    by simp_all
  have keys: "map fst xs = map fst zs"
    using same_dict.IH by (intro map_eq_if_list_all2) (simp add: list_all2_conv_all_nth)
  have "list_all2 (\<lambda>x z. ?g x = ?g z) xs zs"
    using same_dict.IH by (simp add: list_all2_conv_all_nth prod_eq_iff)
  then have eq: "map ?g xs = map ?g zs"
    by (rule map_eq_if_list_all2)
  have "sort_key fst (map ?g zs) = sort_key fst (map ?g ys)"
  proof (rule sort_key_fst_unique)
    show "distinct (map fst (map ?g zs))"
      using dx keys by (simp add: comp_def)
    show "distinct (map fst (map ?g ys))"
      using dy by (simp add: comp_def)
    show "set (map ?g zs) = set (map ?g ys)"
      using st by simp
  qed
  then show ?case
    by (simp add: eq)
qed


lemma derive_same_value:
  "same_value (VDict s1) (VDict s2) \<Longrightarrow> derive lib s1 = derive lib s2"
  unfolding derive_def by (rule arg_cong [where f = "sha256_hexdigest lib"]) (rule json_dumps_same_value)

text \<open>
  C2. The digest is a function of the six fields of the fraud signature alone: two
  signatures with the same \<open>txHash\<close>, flagged address, risk score, timestamp and model
  version, and with field-wise equal explanations, have the same digest, whatever else
  differs between the two requests and assessments and in whatever order the items of
  the explanations were inserted. \<open>derive\<close> reads no store, clock or other state.
\<close>

theorem derive_is_deterministic:
  assumes "txHash tx = txHash tx'" and "from_address tx = from_address tx'"
    and "risk_score p = risk_score p'" and "ts = ts'"
    and "model_version p = model_version p'"
    and "same_value (explanation p) (explanation p')"
  shows "derive lib (fraud_signature_of tx ts p) = derive lib (fraud_signature_of tx' ts' p')"
proof (rule derive_same_value)
  show "same_value (VDict (fraud_signature_of tx ts p)) (VDict (fraud_signature_of tx' ts' p'))"
  proof (rule same_dict [where zs = "fraud_signature_of tx' ts' p'"])
    show "list_all2 (\<lambda>x z. fst x = fst z \<and> same_value (snd x) (snd z))
            (fraud_signature_of tx ts p) (fraud_signature_of tx' ts' p')"
      using assms by (simp add: fraud_signature_of_def same_refl)
  qed (simp_all add: fraud_signature_of_def)
qed

lemma explanations_same:
  "same_value (explanation explained_prediction) (explanation reordered_prediction)"
proof -
  have scores: "same_value (VDict [(''rf'', VFloat (Fin 1)), (''xgb'', VFloat (Fin (3 / 4)))])
                  (VDict [(''xgb'', VFloat (Fin (3 / 4))), (''rf'', VFloat (Fin 1))])"
    by (rule same_dict [where zs = "[(''rf'', VFloat (Fin 1)), (''xgb'', VFloat (Fin (3 / 4)))]"])
       (auto simp: same_refl)
  show ?thesis
    unfolding explained_prediction_def reordered_prediction_def Prediction.simps
    by (rule same_dict
          [where zs = "[(''top_features'', VList [VStr ''amount'', VStr ''gas_price'']),
                        (''model_scores'',
                         VDict [(''xgb'', VFloat (Fin (3 / 4))), (''rf'', VFloat (Fin 1))])]"])
       (auto simp: same_refl scores)
qed

text \<open>
  The theorem at two assessments with differently ordered explanations and two requests
  that differ in their amount.
\<close>

theorem derive_is_deterministic_witness:
  "txHash example_tx = txHash (example_tx\<lparr>amount := Fin 11\<rparr>)
   \<and> from_address example_tx = from_address (example_tx\<lparr>amount := Fin 11\<rparr>)
   \<and> risk_score explained_prediction = risk_score reordered_prediction
   \<and> model_version explained_prediction = model_version reordered_prediction
   \<and> same_value (explanation explained_prediction) (explanation reordered_prediction)
   \<and> explanation explained_prediction \<noteq> explanation reordered_prediction
   \<and> derive example_lib (fraud_signature_of example_tx ''2024-01-01T00:00:00'' explained_prediction)
     = derive example_lib
         (fraud_signature_of (example_tx\<lparr>amount := Fin 11\<rparr>) ''2024-01-01T00:00:00''
            reordered_prediction)"
proof -
  have a: "txHash example_tx = txHash (example_tx\<lparr>amount := Fin 11\<rparr>)"
    and b: "from_address example_tx = from_address (example_tx\<lparr>amount := Fin 11\<rparr>)"
    by simp_all
  have c: "risk_score explained_prediction = risk_score reordered_prediction"
    and d: "model_version explained_prediction = model_version reordered_prediction"
    and n: "explanation explained_prediction \<noteq> explanation reordered_prediction"
    by (simp_all add: explained_prediction_def reordered_prediction_def)
  from derive_is_deterministic [OF a b c refl d explanations_same, of example_lib]
  show ?thesis
    using a b c d n explanations_same by blast
qed


end
